theory Spec2Isabelle
  imports Main
begin

section \<open>Structured values of the component framework\<close>

text \<open>
  The notary and the security module exchange components of the Bali component
  framework. An element is a scalar; a catalog is an ordered list of attributes
  (key, value) together with an ordered list of parameters. Strings are byte
  strings, so a string also stands for the Buffer obtained from it as UTF-8.
  A symbol carries its source text, dollar sign included.
\<close>

type_synonym bytes = string

datatype element =
    Pattern_NONE
  | Symbol string
  | Tag string
  | Version "nat list"
  | Moment string
  | Binary bytes
  | Name string
  | Text string

datatype component =
    Elem element
  | Catalog "(string \<times> component) list" "(string \<times> component) list"

type_synonym attributes = "(string \<times> component) list"

text \<open>Exceptions: the exceptions of the framework, with their attributes and their
  cause, and the errors of the JavaScript runtime (a TypeError on a call through
  undefined, an I/O error, an Error thrown by a library). Of the attributes only
  module, procedure and exception kind are kept.\<close>

datatype exn =
    JsError string
  | Exception "(string \<times> string) list" "exn option"

definition exceptionKind :: "exn \<Rightarrow> string option" where
  "exceptionKind e = (case e of JsError _ \<Rightarrow> None | Exception as _ \<Rightarrow> map_of as ''$exception'')"

definition exceptionCause :: "exn \<Rightarrow> exn option" where
  "exceptionCause e = (case e of JsError _ \<Rightarrow> None | Exception _ c \<Rightarrow> c)"

definition exceptionModule :: "exn \<Rightarrow> string option" where
  "exceptionModule e = (case e of JsError _ \<Rightarrow> None | Exception as _ \<Rightarrow> map_of as ''$module'')"

definition TypeError :: exn where
  "TypeError = JsError ''TypeError''"

text \<open>An Error object without attributes, as a library throws it.\<close>

definition plainError :: exn where
  "plainError = JsError ''Error''"

text \<open>
  \<open>bali.exception(attributes, cause)\<close>: a cause that is itself an exception of
  the framework raised under the same \<open>$module\<close> is handed back as it is; around
  any other cause a new exception with the given attributes is built.
\<close>

definition bali_exception :: "(string \<times> string) list \<Rightarrow> exn \<Rightarrow> exn" where
  "bali_exception as cause =
     (if exceptionModule cause \<noteq> None \<and> exceptionModule cause = map_of as ''$module''
      then cause else Exception as (Some cause))"

subsection \<open>Catalog access\<close>

definition getValue :: "attributes \<Rightarrow> string \<Rightarrow> component option" where
  "getValue as k = map_of as k"

fun setValue :: "attributes \<Rightarrow> string \<Rightarrow> component \<Rightarrow> attributes" where
  "setValue [] k v = [(k, v)]"
| "setValue ((k', v') # as) k v = (if k' = k then (k, v) # as else (k', v') # setValue as k v)"

definition getAttribute :: "attributes \<Rightarrow> string \<Rightarrow> component option" where
  "getAttribute as k = getValue as k"

definition setAttribute :: "attributes \<Rightarrow> string \<Rightarrow> component \<Rightarrow> attributes" where
  "setAttribute as k v = setValue as k v"

definition removeAttributes :: "attributes \<Rightarrow> string list \<Rightarrow> attributes" where
  "removeAttributes as ks = filter (\<lambda>p. fst p \<notin> set ks) as"

text \<open>\<open>c.getValue(key)\<close> on a stored component, as far as a component comes out of
  it: a catalog answers with the value of the attribute. An element answers with
  the JavaScript value it wraps, which is not a component, and the model has
  no value for it; the one call of this kind in the code, in \<open>refreshKey\<close>, goes
  on to call \<open>nextVersion()\<close> on the answer, which only a version element has.\<close>

definition componentValue :: "component \<Rightarrow> string \<Rightarrow> exn + component option" where
  "componentValue c k = (case c of Catalog as _ \<Rightarrow> Inr (getValue as k) | Elem _ \<Rightarrow> Inr None)"

text \<open>
  \<open>a.isEqualTo(b)\<close>: the comparison of the framework walks the two components
  side by side, elements by their values and catalogs attribute by attribute
  in their order, and never looks at parameters.
\<close>

fun isEqualTo :: "component \<Rightarrow> component \<Rightarrow> bool"
  and attributesEqual :: "(string \<times> component) list \<Rightarrow> (string \<times> component) list \<Rightarrow> bool" where
  "isEqualTo (Elem a) (Elem b) = (a = b)"
| "isEqualTo (Catalog as ps) (Catalog bs qs) = attributesEqual as bs"
| "isEqualTo (Elem a) (Catalog bs qs) = False"
| "isEqualTo (Catalog as ps) (Elem b) = False"
| "attributesEqual [] [] = True"
| "attributesEqual (a # as) (b # bs) = (fst a = fst b \<and> isEqualTo (snd a) (snd b) \<and> attributesEqual as bs)"
| "attributesEqual [] (b # bs) = False"
| "attributesEqual (a # as) [] = False"

text \<open>\<open>c.getParameter(key)\<close> on a catalog. The model has no parameters on elements
  and leaves the call on an element open.\<close>

fun getParameter :: "component \<Rightarrow> string \<Rightarrow> component option" where
  "getParameter (Catalog as ps) k = map_of ps k"

text \<open>\<open>binary.getValue()\<close> where a key or a signature is expected: the bytes
  of a binary element, and a TypeError on undefined. Keys and signatures are
  binary elements; for any other component in their place the model leaves the
  call open.\<close>

fun binaryValue :: "component option \<Rightarrow> exn + bytes" where
  "binaryValue None = Inl TypeError"
| "binaryValue (Some (Elem (Binary b))) = Inr b"

fun binaryOrUndefined :: "component option \<Rightarrow> bool" where
  "binaryOrUndefined None = True"
| "binaryOrUndefined (Some (Elem (Binary b))) = True"
| "binaryOrUndefined (Some c) = False"

subsection \<open>Printing\<close>

fun decimal :: "nat \<Rightarrow> string" where
  "decimal n = (if n < 10 then [''0123456789'' ! n] else decimal (n div 10) @ [''0123456789'' ! (n mod 10)])"

fun dotted :: "nat list \<Rightarrow> string" where
  "dotted [] = []"
| "dotted [n] = decimal n"
| "dotted (n # ns) = decimal n @ ''.'' @ dotted ns"

section \<open>External collaborators\<close>

text \<open>
  What the code takes from outside the repository is a parameter of the model:
  the canonical serialization of the framework (\<open>format\<close>), its successor on
  versions, what its catalog constructor makes of an undefined attribute value,
  the key generation, signature and digest primitives used by the v2 security
  module, and the verification and digest of the v1 module held in the registry.
  The verification of a signature throws on a signature or a public key that it
  cannot read (one of the wrong length); \<open>verify\<close> is \<open>None\<close> there.
\<close>

record env =
  format :: "component \<Rightarrow> bytes"
  nextVersion :: "nat list \<Rightarrow> nat list"
  convertUndefined :: "exn + component"
  createKeyPair :: "bytes \<Rightarrow> bytes \<times> bytes"
  sign :: "bytes \<Rightarrow> bytes \<Rightarrow> bytes \<Rightarrow> bytes"
  verify :: "bytes \<Rightarrow> bytes \<Rightarrow> bytes \<Rightarrow> bool option"
  hash :: "bytes \<Rightarrow> bytes"
  v1_validSignature :: "component option \<Rightarrow> component option \<Rightarrow> bytes \<Rightarrow> exn + bool"
  v1_digestBytes :: "bytes \<Rightarrow> exn + component"

text \<open>\<open>c.toString()\<close>: a symbol prints as its source text, a version as \<open>v\<close> followed
  by its dotted numbers; every other component goes through the framework.\<close>

definition toString :: "env \<Rightarrow> component \<Rightarrow> string" where
  "toString E c = (case c of
      Elem (Symbol s) \<Rightarrow> s
    | Elem (Version ns) \<Rightarrow> ''v'' @ dotted ns
    | _ \<Rightarrow> format E c)"

subsection \<open>Programs with state and exceptions\<close>

type_synonym ('s, 'a) prog = "'s \<Rightarrow> (exn + 'a) \<times> 's"

definition returns :: "'a \<Rightarrow> ('s, 'a) prog" where
  "returns x = (\<lambda>s. (Inr x, s))"

definition throws :: "exn \<Rightarrow> ('s, 'a) prog" where
  "throws e = (\<lambda>s. (Inl e, s))"

definition bind :: "('s, 'a) prog \<Rightarrow> ('a \<Rightarrow> ('s, 'b) prog) \<Rightarrow> ('s, 'b) prog" where
  "bind m f = (\<lambda>s. case m s of (Inl e, s') \<Rightarrow> (Inl e, s') | (Inr x, s') \<Rightarrow> f x s')"

definition lift :: "exn + 'a \<Rightarrow> ('s, 'a) prog" where
  "lift r = (\<lambda>s. (r, s))"

text \<open>\<open>try { body } catch (cause) { throw bali.exception(attributes, cause) }\<close>\<close>

definition catching :: "(string \<times> string) list \<Rightarrow> ('s, 'a) prog \<Rightarrow> ('s, 'a) prog" where
  "catching as m = (\<lambda>s. case m s of (Inl cause, s') \<Rightarrow> (Inl (bali_exception as cause), s') | (Inr x, s') \<Rightarrow> (Inr x, s'))"

subsection \<open>The configuration store\<close>

text \<open>
  A configurator holds one file. The file holds the text of a catalog; the model
  keeps the catalog (parsing the canonical text gives the catalog back) and
  \<open>None\<close> for a missing or empty file. Every call is entered in a journal, and
  the call with number \<open>n\<close> fails when \<open>faulty n\<close>.
\<close>

datatype io = Load | Store attributes | Delete

record disk =
  content :: "attributes option"
  journal :: "io list"
  faulty :: "nat \<Rightarrow> bool"

definition configurator_load :: "(disk, attributes option) prog" where
  "configurator_load = (\<lambda>d.
     let d' = d\<lparr>journal := journal d @ [Load]\<rparr>
     in if faulty d (length (journal d)) then (Inl (JsError ''EIO''), d') else (Inr (content d), d'))"

definition configurator_store :: "attributes \<Rightarrow> (disk, unit) prog" where
  "configurator_store c = (\<lambda>d.
     let d' = d\<lparr>journal := journal d @ [Store c]\<rparr>
     in if faulty d (length (journal d)) then (Inl (JsError ''EIO''), d') else (Inr (), d'\<lparr>content := Some c\<rparr>))"

definition configurator_delete :: "(disk, unit) prog" where
  "configurator_delete = (\<lambda>d.
     let d' = d\<lparr>journal := journal d @ [Delete]\<rparr>
     in if faulty d (length (journal d)) then (Inl (JsError ''EIO''), d') else (Inr (), d'\<lparr>content := None\<rparr>))"

subsection \<open>The state machine controller\<close>

text \<open>
  \<open>bali.controller(REQUESTS, STATES, state)\<close>: the row of the current state, at
  the index of the event among the requests, holds the next state or undefined;
  on an undefined entry the controller throws. The notary and the v2 security
  module are written against two releases of the framework (the one reads its
  configuration with \<open>getValue\<close>, the other with \<open>getAttribute\<close>): the
  controller of the notary raises the exception \<open>$invalidEvent\<close>, under a
  module of the framework, and the controller of the v2 security module throws
  an Error without attributes. What is thrown is the first argument of the two
  operations below.
\<close>

fun indexOf :: "'a list \<Rightarrow> 'a \<Rightarrow> nat option" where
  "indexOf [] x = None"
| "indexOf (y # ys) x = (if x = y then Some 0 else map_option Suc (indexOf ys x))"

definition nextState :: "string list \<Rightarrow> (string \<times> string option list) list \<Rightarrow> string \<Rightarrow> string \<Rightarrow> exn + string option" where
  "nextState requests states current event =
     (case map_of states current of
        None \<Rightarrow> Inl TypeError
      | Some row \<Rightarrow> Inr (case indexOf requests event of
                          None \<Rightarrow> None
                        | Some i \<Rightarrow> if i < length row then row ! i else None))"

definition invalidEvent :: exn where
  "invalidEvent = Exception [(''$exception'', ''$invalidEvent'')] None"

definition validateEvent :: "exn \<Rightarrow> string list \<Rightarrow> (string \<times> string option list) list \<Rightarrow> string \<Rightarrow> string \<Rightarrow> exn + unit" where
  "validateEvent thrown requests states current event =
     (case nextState requests states current event of
        Inl e \<Rightarrow> Inl e
      | Inr None \<Rightarrow> Inl thrown
      | Inr (Some _) \<Rightarrow> Inr ())"

definition transitionState :: "exn \<Rightarrow> string list \<Rightarrow> (string \<times> string option list) list \<Rightarrow> string \<Rightarrow> string \<Rightarrow> exn + string" where
  "transitionState thrown requests states current event =
     (case nextState requests states current event of
        Inl e \<Rightarrow> Inl e
      | Inr None \<Rightarrow> Inl thrown
      | Inr (Some next) \<Rightarrow> Inr next)"

section \<open>The software security module (v2/SSM.js)\<close>

definition moduleName :: string where
  "moduleName = ''/bali/notary/v2/SSM''"

definition SSM_PROTOCOL :: string where
  "SSM_PROTOCOL = ''v2''"

definition SSM_REQUESTS :: "string list" where
  "SSM_REQUESTS = [''$generateKeys'', ''$signBytes'', ''$rotateKeys'']"

definition SSM_STATES :: "(string \<times> string option list) list" where
  "SSM_STATES =
    [(''$keyless'', [Some ''$loneKey'', None, None]),
     (''$loneKey'', [None, Some ''$loneKey'', Some ''$twoKeys'']),
     (''$twoKeys'', [None, Some ''$loneKey'', None])]"

text \<open>The private variables of one SSM instance, its file, and the random source
  it draws tags and seeds from.\<close>

record ssm =
  ssm_disk :: disk
  ssm_configuration :: "attributes option"
  ssm_controller :: "string option"
  ssm_entropy :: "nat \<Rightarrow> bytes"
  ssm_draws :: nat

definition ssm_random :: "(ssm, bytes) prog" where
  "ssm_random = (\<lambda>s. (Inr (ssm_entropy s (ssm_draws s)), s\<lparr>ssm_draws := Suc (ssm_draws s)\<rparr>))"

definition ssm_io :: "(disk, 'a) prog \<Rightarrow> (ssm, 'a) prog" where
  "ssm_io m = (\<lambda>s. case m (ssm_disk s) of (r, d) \<Rightarrow> (r, s\<lparr>ssm_disk := d\<rparr>))"

definition ssm_exception :: "string \<Rightarrow> string \<Rightarrow> (string \<times> string) list" where
  "ssm_exception procedure kind =
     [(''$module'', moduleName), (''$procedure'', procedure), (''$exception'', kind)]"

definition SSM_storeConfiguration :: "attributes \<Rightarrow> (ssm, unit) prog" where
  "SSM_storeConfiguration c =
     catching (ssm_exception ''$storeConfiguration'' ''$storageException'')
       (ssm_io (configurator_store c))"

definition SSM_loadConfiguration :: "(ssm, attributes) prog" where
  "SSM_loadConfiguration =
     catching (ssm_exception ''$loadConfiguration'' ''$storageException'')
       (bind (ssm_io configurator_load) (\<lambda>source.
          case source of
            Some c \<Rightarrow> returns c
          | None \<Rightarrow>
              bind ssm_random (\<lambda>t.
                let c = [(''$tag'', Elem (Tag t)), (''$state'', Elem (Symbol ''$keyless''))]
                in bind (ssm_io (configurator_store c)) (\<lambda>_. returns c))))"

definition SSM_deleteConfiguration :: "(ssm, unit) prog" where
  "SSM_deleteConfiguration =
     catching (ssm_exception ''$deleteConfiguration'' ''$storageException'')
       (ssm_io configurator_delete)"

text \<open>The block \<open>if (!configuration) { configuration = load; controller = ... }\<close>
  that opens every state-checked operation.\<close>

definition SSM_checkState :: "env \<Rightarrow> (ssm, unit) prog" where
  "SSM_checkState E = (\<lambda>s.
     case ssm_configuration s of
       Some _ \<Rightarrow> (Inr (), s)
     | None \<Rightarrow>
         bind SSM_loadConfiguration (\<lambda>c s1.
           let s2 = s1\<lparr>ssm_configuration := Some c\<rparr>
           in case getAttribute c ''$state'' of
                None \<Rightarrow> (Inl TypeError, s2)
              | Some st \<Rightarrow> (Inr (), s2\<lparr>ssm_controller := Some (toString E st)\<rparr>)) s)"

definition SSM_getAttribute :: "string \<Rightarrow> (ssm, component option) prog" where
  "SSM_getAttribute k = (\<lambda>s.
     case ssm_configuration s of
       None \<Rightarrow> (Inl TypeError, s)
     | Some c \<Rightarrow> (Inr (getAttribute c k), s))"

definition SSM_setAttribute :: "string \<Rightarrow> component \<Rightarrow> (ssm, unit) prog" where
  "SSM_setAttribute k v = (\<lambda>s.
     case ssm_configuration s of
       None \<Rightarrow> (Inl TypeError, s)
     | Some c \<Rightarrow> (Inr (), s\<lparr>ssm_configuration := Some (setAttribute c k v)\<rparr>))"

definition SSM_removeAttributes :: "string list \<Rightarrow> (ssm, unit) prog" where
  "SSM_removeAttributes ks = (\<lambda>s.
     case ssm_configuration s of
       None \<Rightarrow> (Inl TypeError, s)
     | Some c \<Rightarrow> (Inr (), s\<lparr>ssm_configuration := Some (removeAttributes c ks)\<rparr>))"

definition SSM_validateEvent :: "string \<Rightarrow> (ssm, unit) prog" where
  "SSM_validateEvent event = (\<lambda>s.
     case ssm_controller s of
       None \<Rightarrow> (Inl TypeError, s)
     | Some current \<Rightarrow> (validateEvent plainError SSM_REQUESTS SSM_STATES current event, s))"

definition SSM_transitionState :: "string \<Rightarrow> (ssm, string) prog" where
  "SSM_transitionState event = (\<lambda>s.
     case ssm_controller s of
       None \<Rightarrow> (Inl TypeError, s)
     | Some current \<Rightarrow>
         (case transitionState plainError SSM_REQUESTS SSM_STATES current event of
            Inl e \<Rightarrow> (Inl e, s)
          | Inr next \<Rightarrow> (Inr next, s\<lparr>ssm_controller := Some next\<rparr>)))"

definition SSM_store :: "(ssm, unit) prog" where
  "SSM_store = (\<lambda>s.
     case ssm_configuration s of
       None \<Rightarrow> (Inl TypeError, s)
     | Some c \<Rightarrow> SSM_storeConfiguration c s)"

definition getTag_body :: "env \<Rightarrow> (ssm, component option) prog" where
  "getTag_body E = bind (SSM_checkState E) (\<lambda>_. SSM_getAttribute ''$tag'')"

definition getTag :: "env \<Rightarrow> (ssm, component option) prog" where
  "getTag E = catching (ssm_exception ''$getTag'' ''$unexpected'') (getTag_body E)"

definition getProtocol_body :: "(ssm, component) prog" where
  "getProtocol_body = returns (Elem (Version [2]))"

definition getProtocol :: "(ssm, component) prog" where
  "getProtocol = catching (ssm_exception ''$getProtocol'' ''$unexpected'') getProtocol_body"

definition newKeyPair :: "env \<Rightarrow> (ssm, unit) prog" where
  "newKeyPair E =
     bind ssm_random (\<lambda>seed.
       let raw = createKeyPair E seed
       in bind (SSM_setAttribute ''$publicKey'' (Elem (Binary (fst raw)))) (\<lambda>_.
            SSM_setAttribute ''$privateKey'' (Elem (Binary (snd raw)))))"

definition finish :: "string \<Rightarrow> (ssm, unit) prog" where
  "finish event =
     bind (SSM_transitionState event) (\<lambda>state.
       bind (SSM_setAttribute ''$state'' (Elem (Symbol state))) (\<lambda>_. SSM_store))"

definition generateKeys_body :: "env \<Rightarrow> (ssm, component option) prog" where
  "generateKeys_body E =
     bind (SSM_checkState E) (\<lambda>_.
     bind (SSM_validateEvent ''$generateKeys'') (\<lambda>_.
     bind (newKeyPair E) (\<lambda>_.
     bind (finish ''$generateKeys'') (\<lambda>_.
     SSM_getAttribute ''$publicKey''))))"

definition generateKeys :: "env \<Rightarrow> (ssm, component option) prog" where
  "generateKeys E = catching (ssm_exception ''$generateKeys'' ''$unexpected'') (generateKeys_body E)"

definition movePrevious :: "string \<Rightarrow> string \<Rightarrow> (ssm, unit) prog" where
  "movePrevious to from =
     bind (SSM_getAttribute from) (\<lambda>v.
       case v of
         None \<Rightarrow> throws TypeError
       | Some c \<Rightarrow> SSM_setAttribute to c)"

definition rotateKeys_body :: "env \<Rightarrow> (ssm, component option) prog" where
  "rotateKeys_body E =
     bind (SSM_checkState E) (\<lambda>_.
     bind (SSM_validateEvent ''$rotateKeys'') (\<lambda>_.
     bind (movePrevious ''$previousPublicKey'' ''$publicKey'') (\<lambda>_.
     bind (movePrevious ''$previousPrivateKey'' ''$privateKey'') (\<lambda>_.
     bind (newKeyPair E) (\<lambda>_.
     bind (finish ''$rotateKeys'') (\<lambda>_.
     SSM_getAttribute ''$publicKey''))))))"

definition rotateKeys :: "env \<Rightarrow> (ssm, component option) prog" where
  "rotateKeys E = catching (ssm_exception ''$rotateKeys'' ''$unexpected'') (rotateKeys_body E)"

definition eraseKeys_body :: "(ssm, bool) prog" where
  "eraseKeys_body =
     bind SSM_deleteConfiguration (\<lambda>_ s. (Inr True, s\<lparr>ssm_configuration := None\<rparr>))"

definition eraseKeys :: "(ssm, bool) prog" where
  "eraseKeys = catching (ssm_exception ''$eraseKeys'' ''$unexpected'') eraseKeys_body"

definition digestBytes_body :: "env \<Rightarrow> bytes \<Rightarrow> (ssm, component) prog" where
  "digestBytes_body E bytes = returns (Elem (Binary (hash E bytes)))"

definition digestBytes :: "env \<Rightarrow> bytes \<Rightarrow> (ssm, component) prog" where
  "digestBytes E bytes = catching (ssm_exception ''$digestBytes'' ''$unexpected'') (digestBytes_body E bytes)"

text \<open>The key selection of \<open>signBytes\<close>: the previous pair when \<open>$previousPublicKey\<close>
  is there, and then both previous attributes are removed; the current pair otherwise.\<close>

definition retrieveKeys :: "(ssm, component option \<times> component option) prog" where
  "retrieveKeys =
     bind (SSM_getAttribute ''$previousPublicKey'') (\<lambda>publicKey.
       case publicKey of
         Some _ \<Rightarrow>
           bind (SSM_getAttribute ''$previousPrivateKey'') (\<lambda>privateKey.
           bind (SSM_removeAttributes [''$previousPublicKey'', ''$previousPrivateKey'']) (\<lambda>_.
           returns (publicKey, privateKey)))
       | None \<Rightarrow>
           bind (SSM_getAttribute ''$publicKey'') (\<lambda>publicKey.
           bind (SSM_getAttribute ''$privateKey'') (\<lambda>privateKey.
           returns (publicKey, privateKey))))"

definition signBytes_body :: "env \<Rightarrow> bytes \<Rightarrow> (ssm, component) prog" where
  "signBytes_body E bytes =
     bind (SSM_checkState E) (\<lambda>_.
     bind (SSM_validateEvent ''$signBytes'') (\<lambda>_.
     bind retrieveKeys (\<lambda>keys.
     bind (lift (binaryValue (fst keys))) (\<lambda>publicKey.
     bind (lift (binaryValue (snd keys))) (\<lambda>privateKey.
       let signature = sign E bytes publicKey privateKey
       in bind (finish ''$signBytes'') (\<lambda>_.
          returns (Elem (Binary signature))))))))"

definition signBytes :: "env \<Rightarrow> bytes \<Rightarrow> (ssm, component) prog" where
  "signBytes E bytes = catching (ssm_exception ''$signBytes'' ''$unexpected'') (signBytes_body E bytes)"

definition validSignature_body :: "env \<Rightarrow> component option \<Rightarrow> component option \<Rightarrow> bytes \<Rightarrow> (ssm, bool) prog" where
  "validSignature_body E aPublicKey signature bytes =
     bind (lift (binaryValue signature)) (\<lambda>s.
     bind (lift (binaryValue aPublicKey)) (\<lambda>k.
       case verify E s bytes k of
         None \<Rightarrow> throws plainError
       | Some isValid \<Rightarrow> returns isValid))"

definition validSignature :: "env \<Rightarrow> component option \<Rightarrow> component option \<Rightarrow> bytes \<Rightarrow> (ssm, bool) prog" where
  "validSignature E aPublicKey signature bytes =
     catching (ssm_exception ''$validSignature'' ''$unexpected'') (validSignature_body E aPublicKey signature bytes)"

section \<open>The digital notary (DigitalNotary.js)\<close>

text \<open>
  The notary is modelled at its default debug level, where no argument is
  validated. The registry \<open>PROTOCOLS\<close> has the one key \<open>v1\<close>; a lookup
  \<open>PROTOCOLS[name]\<close> also finds the members every JavaScript object inherits.
\<close>

datatype registered = SSMv1

datatype requiredModule = Current | Registered registered | Inherited

definition PROTOCOLS :: "(string \<times> registered) list" where
  "PROTOCOLS = [(''v1'', SSMv1)]"

definition PROTOCOL :: string where
  "PROTOCOL = hd (map fst PROTOCOLS)"

definition Object_prototype :: "string list" where
  "Object_prototype =
    [''constructor'', ''__defineGetter__'', ''__defineSetter__'', ''hasOwnProperty'',
     ''__lookupGetter__'', ''__lookupSetter__'', ''isPrototypeOf'', ''propertyIsEnumerable'',
     ''toString'', ''valueOf'', ''__proto__'', ''toLocaleString'']"

definition PROTOCOLS_at :: "string \<Rightarrow> requiredModule option" where
  "PROTOCOLS_at name =
     (case map_of PROTOCOLS name of
        Some m \<Rightarrow> Some (Registered m)
      | None \<Rightarrow> if name \<in> set Object_prototype then Some Inherited else None)"

text \<open>The component the catalog constructor makes of the string \<open>PROTOCOL\<close>.\<close>

definition protocol :: component where
  "protocol = Elem (Version [1])"

definition REQUESTS :: "string list" where
  "REQUESTS = [''$generateKey'', ''$activateKey'', ''$getCitation'', ''$notarizeComponent'', ''$refreshKey'']"

definition STATES :: "(string \<times> string option list) list" where
  "STATES =
    [(''$limited'', [Some ''$pending'', None, None, None, None]),
     (''$pending'', [None, Some ''$enabled'', None, Some ''$pending'', None]),
     (''$enabled'', [None, None, Some ''$enabled'', Some ''$enabled'', Some ''$enabled''])]"

text \<open>The private variables of one notary, its file, the security module it was
  given, and the sources of its random tags and of its clock.\<close>

record notary =
  account :: component
  notary_disk :: disk
  configuration :: "attributes option"
  controller :: "string option"
  securityModule :: ssm
  entropy :: "nat \<Rightarrow> string"
  draws :: nat
  clock :: "nat \<Rightarrow> string"
  ticks :: nat

definition bali_tag :: "(notary, component) prog" where
  "bali_tag = (\<lambda>s. (Inr (Elem (Tag (entropy s (draws s)))), s\<lparr>draws := Suc (draws s)\<rparr>))"

definition bali_moment :: "(notary, component) prog" where
  "bali_moment = (\<lambda>s. (Inr (Elem (Moment (clock s (ticks s)))), s\<lparr>ticks := Suc (ticks s)\<rparr>))"

definition notary_io :: "(disk, 'a) prog \<Rightarrow> (notary, 'a) prog" where
  "notary_io m = (\<lambda>s. case m (notary_disk s) of (r, d) \<Rightarrow> (r, s\<lparr>notary_disk := d\<rparr>))"

definition module :: "(ssm, 'a) prog \<Rightarrow> (notary, 'a) prog" where
  "module m = (\<lambda>s. case m (securityModule s) of (r, t) \<Rightarrow> (r, s\<lparr>securityModule := t\<rparr>))"

definition notary_exception :: "string \<Rightarrow> string \<Rightarrow> (string \<times> string) list" where
  "notary_exception procedure kind =
     [(''$module'', ''/bali/notary/DigitalNotary''), (''$procedure'', procedure), (''$exception'', kind)]"

definition storeConfiguration :: "attributes \<Rightarrow> (notary, unit) prog" where
  "storeConfiguration c =
     catching (notary_exception ''$storeConfiguration'' ''$storageException'')
       (notary_io (configurator_store c))"

definition loadConfiguration :: "(notary, attributes) prog" where
  "loadConfiguration =
     catching (notary_exception ''$loadConfiguration'' ''$storageException'')
       (bind (notary_io configurator_load) (\<lambda>source.
          case source of
            Some c \<Rightarrow> returns c
          | None \<Rightarrow>
              (let c = [(''$state'', Elem (Symbol ''$limited''))]
               in bind (notary_io (configurator_store c)) (\<lambda>_. returns c))))"

definition deleteConfiguration :: "(notary, unit) prog" where
  "deleteConfiguration =
     catching (notary_exception ''$deleteConfiguration'' ''$storageException'')
       (notary_io configurator_delete)"

definition checkState :: "env \<Rightarrow> (notary, unit) prog" where
  "checkState E = (\<lambda>s.
     case configuration s of
       Some _ \<Rightarrow> (Inr (), s)
     | None \<Rightarrow>
         bind loadConfiguration (\<lambda>c s1.
           let s2 = s1\<lparr>configuration := Some c\<rparr>
           in case getValue c ''$state'' of
                None \<Rightarrow> (Inl TypeError, s2)
              | Some st \<Rightarrow> (Inr (), s2\<lparr>controller := Some (toString E st)\<rparr>)) s)"

definition notary_getValue :: "string \<Rightarrow> (notary, component option) prog" where
  "notary_getValue k = (\<lambda>s.
     case configuration s of
       None \<Rightarrow> (Inl TypeError, s)
     | Some c \<Rightarrow> (Inr (getValue c k), s))"

definition notary_setValue :: "string \<Rightarrow> component \<Rightarrow> (notary, unit) prog" where
  "notary_setValue k v = (\<lambda>s.
     case configuration s of
       None \<Rightarrow> (Inl TypeError, s)
     | Some c \<Rightarrow> (Inr (), s\<lparr>configuration := Some (setValue c k v)\<rparr>))"

definition notary_validateEvent :: "string \<Rightarrow> (notary, unit) prog" where
  "notary_validateEvent event = (\<lambda>s.
     case controller s of
       None \<Rightarrow> (Inl TypeError, s)
     | Some current \<Rightarrow> (validateEvent invalidEvent REQUESTS STATES current event, s))"

definition notary_transitionState :: "string \<Rightarrow> (notary, string) prog" where
  "notary_transitionState event = (\<lambda>s.
     case controller s of
       None \<Rightarrow> (Inl TypeError, s)
     | Some current \<Rightarrow>
         (case transitionState invalidEvent REQUESTS STATES current event of
            Inl e \<Rightarrow> (Inl e, s)
          | Inr next \<Rightarrow> (Inr next, s\<lparr>controller := Some next\<rparr>)))"

definition notary_store :: "(notary, unit) prog" where
  "notary_store = (\<lambda>s.
     case configuration s of
       None \<Rightarrow> (Inl TypeError, s)
     | Some c \<Rightarrow> storeConfiguration c s)"

text \<open>The lines under \<open>// update current state\<close>.\<close>

definition updateState :: "string \<Rightarrow> (notary, unit) prog" where
  "updateState event =
     bind (notary_transitionState event) (\<lambda>state.
       bind (notary_setValue ''$state'' (Elem (Symbol state))) (\<lambda>_. notary_store))"

text \<open>An attribute value handed to the catalog constructor.\<close>

definition convert :: "env \<Rightarrow> component option \<Rightarrow> exn + component" where
  "convert E v = (case v of Some c \<Rightarrow> Inr c | None \<Rightarrow> convertUndefined E)"

definition defined :: "component option \<Rightarrow> exn + component" where
  "defined v = (case v of Some c \<Rightarrow> Inr c | None \<Rightarrow> Inl TypeError)"

definition withValue :: "component \<Rightarrow> string \<Rightarrow> component \<Rightarrow> exn + component" where
  "withValue c k v = (case c of Catalog as ps \<Rightarrow> Inr (Catalog (setValue as k v) ps) | Elem _ \<Rightarrow> Inl TypeError)"

definition citationCatalog :: "component \<Rightarrow> component \<Rightarrow> component \<Rightarrow> component \<Rightarrow> component" where
  "citationCatalog timestamp tag version digest =
     Catalog
       [(''$protocol'', protocol), (''$timestamp'', timestamp), (''$tag'', tag),
        (''$version'', version), (''$digest'', digest)]
       [(''$type'', Elem (Name ''/bali/notary/Citation/v1''))]"

definition certificateCatalog :: "component \<Rightarrow> component \<Rightarrow> component \<Rightarrow> component \<Rightarrow> component \<Rightarrow> component \<Rightarrow> component" where
  "certificateCatalog timestamp acc publicKey tag version previous =
     Catalog
       [(''$protocol'', protocol), (''$timestamp'', timestamp), (''$account'', acc),
        (''$publicKey'', publicKey)]
       [(''$type'', Elem (Name ''/bali/notary/Certificate/v1'')), (''$tag'', tag),
        (''$version'', version),
        (''$permissions'', Elem (Name ''/bali/permissions/public/v1'')),
        (''$previous'', previous)]"

definition documentCatalog :: "component \<Rightarrow> component \<Rightarrow> component \<Rightarrow> component" where
  "documentCatalog component timestamp certificate =
     Catalog
       [(''$component'', component), (''$protocol'', protocol), (''$timestamp'', timestamp),
        (''$certificate'', certificate)]
       [(''$type'', Elem (Name ''/bali/notary/Document/v1''))]"

definition getProtocols_body :: "(notary, string list) prog" where
  "getProtocols_body = returns (map fst PROTOCOLS)"

definition getProtocols :: "(notary, string list) prog" where
  "getProtocols = catching (notary_exception ''$getProtocols'' ''$unexpected'') getProtocols_body"

definition getCitation_body :: "env \<Rightarrow> (notary, component option) prog" where
  "getCitation_body E =
     bind (checkState E) (\<lambda>_.
     bind (updateState ''$getCitation'') (\<lambda>_.
     notary_getValue ''$citation''))"

definition getCitation :: "env \<Rightarrow> (notary, component option) prog" where
  "getCitation E = catching (notary_exception ''$getCitation'' ''$unexpected'') (getCitation_body E)"

definition generateKey_body :: "env \<Rightarrow> (notary, component) prog" where
  "generateKey_body E =
     bind (checkState E) (\<lambda>_.
     bind (notary_validateEvent ''$generateKey'') (\<lambda>_.
     bind (module (generateKeys E)) (\<lambda>publicKey.
     bind bali_moment (\<lambda>timestamp.
     bind bali_tag (\<lambda>tag.
     bind (lift (convert E publicKey)) (\<lambda>key s.
       (let certificate = certificateCatalog timestamp (account s) key tag (Elem (Version [1])) (Elem Pattern_NONE)
        in bind (notary_setValue ''$certificate'' certificate) (\<lambda>_.
           bind (updateState ''$generateKey'') (\<lambda>_.
           returns certificate))) s))))))"

definition generateKey :: "env \<Rightarrow> (notary, component) prog" where
  "generateKey E = catching (notary_exception ''$generateKey'' ''$unexpected'') (generateKey_body E)"

definition invalidCertificate :: exn where
  "invalidCertificate = Exception (notary_exception ''$activateKey'' ''$invalidCertificate'') None"

text \<open>
  The operations that are handed a catalog read it with \<open>getValue(key)\<close>. The
  model follows them on catalogs; what they do with an element in the place of
  the catalog is left open (the equations below are for catalogs only).
\<close>

text \<open>\<open>activateKey\<close> from \<open>// make sure its the same certificate\<close> on. The stashed
  certificate is compared with the \<open>$component\<close> of the argument, and the
  parameters \<open>$tag\<close> and \<open>$version\<close> are those of that component. What the
  comparison makes of an argument without a \<open>$component\<close> is left open.\<close>

fun activation :: "env \<Rightarrow> component \<Rightarrow> (notary, component) prog" where
  "activation E (Catalog as ps) =
     bind (notary_getValue ''$certificate'') (\<lambda>stashed.
     bind (lift (defined stashed)) (\<lambda>original.
       case getValue as ''$component'' of
         Some component \<Rightarrow>
           if \<not> isEqualTo original component then throws invalidCertificate
           else
             bind bali_moment (\<lambda>timestamp.
             bind (module (digestBytes E (toString E (Catalog as ps)))) (\<lambda>digest.
             bind (lift (convert E (getParameter component ''$tag''))) (\<lambda>tag.
             bind (lift (convert E (getParameter component ''$version''))) (\<lambda>version.
               let citation = citationCatalog timestamp tag version digest
               in bind (notary_setValue ''$citation'' citation) (\<lambda>_.
                  bind (notary_setValue ''$certificate'' (Catalog as ps)) (\<lambda>_.
                  bind (updateState ''$activateKey'') (\<lambda>_.
                  returns citation)))))))))"

definition activateKey_body :: "env \<Rightarrow> component \<Rightarrow> (notary, component) prog" where
  "activateKey_body E certificate =
     bind (checkState E) (\<lambda>_.
     bind (notary_validateEvent ''$activateKey'') (\<lambda>_.
     activation E certificate))"

definition activateKey :: "env \<Rightarrow> component \<Rightarrow> (notary, component) prog" where
  "activateKey E certificate =
     catching (notary_exception ''$activateKey'' ''$unexpected'') (activateKey_body E certificate)"

definition notarizeComponent_body :: "env \<Rightarrow> component \<Rightarrow> (notary, component) prog" where
  "notarizeComponent_body E component =
     bind (checkState E) (\<lambda>_.
     bind (notary_validateEvent ''$notarizeComponent'') (\<lambda>_.
     bind (notary_getValue ''$citation'') (\<lambda>citation.
     bind bali_moment (\<lambda>timestamp.
       let document = documentCatalog component timestamp
             (case citation of Some c \<Rightarrow> c | None \<Rightarrow> Elem Pattern_NONE)
       in bind (module (signBytes E (toString E document))) (\<lambda>signature.
          bind (lift (withValue document ''$signature'' signature)) (\<lambda>notarized.
          bind (updateState ''$notarizeComponent'') (\<lambda>_.
          returns notarized)))))))"

definition notarizeComponent :: "env \<Rightarrow> component \<Rightarrow> (notary, component) prog" where
  "notarizeComponent E component =
     catching (notary_exception ''$notarizeComponent'' ''$unexpected'') (notarizeComponent_body E component)"

text \<open>\<open>bali.catalog.extraction(catalog, keys)\<close>: a copy of the catalog holding the
  listed attributes that the catalog has, in the order of the list.\<close>

fun extraction :: "component \<Rightarrow> string list \<Rightarrow> exn + component" where
  "extraction (Catalog as ps) keys =
     Inr (Catalog (concat (map (\<lambda>k. case map_of as k of None \<Rightarrow> [] | Some v \<Rightarrow> [(k, v)]) keys)) ps)"

definition unsupportedProtocol :: "string \<Rightarrow> exn" where
  "unsupportedProtocol procedure = Exception (notary_exception procedure ''$unsupportedProtocol'') None"

text \<open>The search for a security module that is compatible with the protocol.\<close>

definition findModule :: "string \<Rightarrow> string \<Rightarrow> exn + requiredModule" where
  "findModule procedure requiredProtocol =
     (if requiredProtocol = PROTOCOL then Inr Current
      else case PROTOCOLS_at requiredProtocol of
             None \<Rightarrow> Inl (unsupportedProtocol procedure)
           | Some m \<Rightarrow> Inr m)"

definition module_validSignature :: "env \<Rightarrow> requiredModule \<Rightarrow> component option \<Rightarrow> component option \<Rightarrow> bytes \<Rightarrow> (notary, bool) prog" where
  "module_validSignature E m publicKey signature bytes =
     (case m of
        Current \<Rightarrow> module (validSignature E publicKey signature bytes)
      | Registered SSMv1 \<Rightarrow> lift (v1_validSignature E publicKey signature bytes)
      | Inherited \<Rightarrow> throws TypeError)"

definition module_digestBytes :: "env \<Rightarrow> requiredModule \<Rightarrow> bytes \<Rightarrow> (notary, component) prog" where
  "module_digestBytes E m bytes =
     (case m of
        Current \<Rightarrow> module (digestBytes E bytes)
      | Registered SSMv1 \<Rightarrow> lift (v1_digestBytes E bytes)
      | Inherited \<Rightarrow> throws TypeError)"

fun validDocument_body :: "env \<Rightarrow> component \<Rightarrow> component \<Rightarrow> (notary, bool) prog" where
  "validDocument_body E (Catalog das dps) (Catalog cas cps) =
     bind (lift (extraction (Catalog das dps) [''$component'', ''$protocol'', ''$timestamp'', ''$certificate''])) (\<lambda>catalog.
       let signature = getValue das ''$signature'';
           publicKey = getValue cas ''$publicKey''
       in bind (lift (defined (getValue cas ''$protocol''))) (\<lambda>p.
          bind (lift (findModule ''$validDocument'' (toString E p))) (\<lambda>requiredModule.
          module_validSignature E requiredModule publicKey signature (toString E catalog))))"

definition validDocument :: "env \<Rightarrow> component \<Rightarrow> component \<Rightarrow> (notary, bool) prog" where
  "validDocument E document certificate =
     catching (notary_exception ''$validDocument'' ''$unexpected'') (validDocument_body E document certificate)"

text \<open>\<open>citeDocument\<close> after it has taken the time.\<close>

fun citing :: "env \<Rightarrow> component \<Rightarrow> component \<Rightarrow> (notary, component) prog" where
  "citing E timestamp (Catalog das dps) =
     bind (lift (defined (getValue das ''$component''))) (\<lambda>component.
     bind (module (digestBytes E (toString E (Catalog das dps)))) (\<lambda>digest.
     bind (lift (convert E (getParameter component ''$tag''))) (\<lambda>tag.
     bind (lift (convert E (getParameter component ''$version''))) (\<lambda>version.
     returns (citationCatalog timestamp tag version digest)))))"

definition citeDocument_body :: "env \<Rightarrow> component \<Rightarrow> (notary, component) prog" where
  "citeDocument_body E document = bind bali_moment (\<lambda>timestamp. citing E timestamp document)"

definition citeDocument :: "env \<Rightarrow> component \<Rightarrow> (notary, component) prog" where
  "citeDocument E document =
     catching (notary_exception ''$citeDocument'' ''$unexpected'') (citeDocument_body E document)"

text \<open>What the comparison makes of a citation without a \<open>$digest\<close> is left open.\<close>

fun citationMatches_body :: "env \<Rightarrow> component \<Rightarrow> component \<Rightarrow> (notary, bool) prog" where
  "citationMatches_body E (Catalog as ps) document =
     bind (lift (defined (getValue as ''$protocol''))) (\<lambda>p.
     bind (lift (findModule ''$citationMatches'' (toString E p))) (\<lambda>requiredModule.
     bind (module_digestBytes E requiredModule (toString E document)) (\<lambda>digest.
     returns (case getValue as ''$digest'' of Some cited \<Rightarrow> isEqualTo digest cited))))"

definition citationMatches :: "env \<Rightarrow> component \<Rightarrow> component \<Rightarrow> (notary, bool) prog" where
  "citationMatches E citation document =
     catching (notary_exception ''$citationMatches'' ''$unexpected'') (citationMatches_body E citation document)"

text \<open>\<open>version.nextVersion()\<close>, a method of version elements only.\<close>

definition successor :: "env \<Rightarrow> component option \<Rightarrow> exn + component" where
  "successor E v = (case v of Some (Elem (Version ns)) \<Rightarrow> Inr (Elem (Version (nextVersion E ns))) | _ \<Rightarrow> Inl TypeError)"

definition refreshKey_body :: "env \<Rightarrow> (notary, component) prog" where
  "refreshKey_body E =
     bind (checkState E) (\<lambda>_.
     bind (notary_validateEvent ''$refreshKey'') (\<lambda>_.
     bind (module (rotateKeys E)) (\<lambda>publicKey.
     bind bali_moment (\<lambda>timestamp.
     bind (notary_getValue ''$citation'') (\<lambda>citation.
     bind (lift (defined citation)) (\<lambda>citation.
     bind (lift (componentValue citation ''$tag'')) (\<lambda>tag.
     bind (lift (componentValue citation ''$version'')) (\<lambda>version.
     bind (lift (successor E version)) (\<lambda>version.
     bind (lift (convert E publicKey)) (\<lambda>key.
     bind (lift (convert E tag)) (\<lambda>tag s.
       (let component = certificateCatalog timestamp (account s) key tag version citation;
            certificate = documentCatalog component timestamp citation
        in bind (module (signBytes E (toString E certificate))) (\<lambda>signature.
           bind (lift (withValue certificate ''$signature'' signature)) (\<lambda>certificate.
           bind (notary_setValue ''$certificate'' certificate) (\<lambda>_.
           bind (module (digestBytes E (toString E certificate))) (\<lambda>digest.
           bind (notary_setValue ''$citation'' (citationCatalog timestamp tag version digest)) (\<lambda>_.
           bind (updateState ''$refreshKey'') (\<lambda>_.
           returns certificate))))))) s)))))))))))"

definition refreshKey :: "env \<Rightarrow> (notary, component) prog" where
  "refreshKey E = catching (notary_exception ''$refreshKey'' ''$unexpected'') (refreshKey_body E)"

definition forgetKey_body :: "(notary, unit) prog" where
  "forgetKey_body =
     bind (module eraseKeys) (\<lambda>_.
     bind deleteConfiguration (\<lambda>_ s. (Inr (), s\<lparr>configuration := None\<rparr>)))"

definition forgetKey :: "(notary, unit) prog" where
  "forgetKey = catching (notary_exception ''$forgetKey'' ''$unexpected'') forgetKey_body"

section \<open>The public interface\<close>

text \<open>
  The public operations of the notary and of the security module as calls, so
  that a statement can range over all of them. Each call names its procedure
  (the \<open>$procedure\<close> of its exception), its body (what stands inside its
  \<open>try\<close>) and, where the state machine checks it, its event.
\<close>

datatype call =
    GetProtocols
  | GetCitation
  | GenerateKey
  | ActivateKey component
  | NotarizeComponent component
  | ValidDocument component component
  | CiteDocument component
  | CitationMatches component component
  | RefreshKey
  | ForgetKey

datatype reply = Protocols "string list" | Value "component option" | Truth bool | Done

definition replying :: "('a \<Rightarrow> reply) \<Rightarrow> ('s, 'a) prog \<Rightarrow> ('s, reply) prog" where
  "replying f m = (\<lambda>s. case m s of (Inl e, s') \<Rightarrow> (Inl e, s') | (Inr x, s') \<Rightarrow> (Inr (f x), s'))"

fun procedure :: "call \<Rightarrow> string" where
  "procedure GetProtocols = ''$getProtocols''"
| "procedure GetCitation = ''$getCitation''"
| "procedure GenerateKey = ''$generateKey''"
| "procedure (ActivateKey certificate) = ''$activateKey''"
| "procedure (NotarizeComponent component) = ''$notarizeComponent''"
| "procedure (ValidDocument document certificate) = ''$validDocument''"
| "procedure (CiteDocument document) = ''$citeDocument''"
| "procedure (CitationMatches citation document) = ''$citationMatches''"
| "procedure RefreshKey = ''$refreshKey''"
| "procedure ForgetKey = ''$forgetKey''"

fun event :: "call \<Rightarrow> string option" where
  "event GetCitation = Some ''$getCitation''"
| "event GenerateKey = Some ''$generateKey''"
| "event (ActivateKey certificate) = Some ''$activateKey''"
| "event (NotarizeComponent component) = Some ''$notarizeComponent''"
| "event RefreshKey = Some ''$refreshKey''"
| "event _ = None"

fun body :: "env \<Rightarrow> call \<Rightarrow> (notary, reply) prog" where
  "body E GetProtocols = replying Protocols getProtocols_body"
| "body E GetCitation = replying Value (getCitation_body E)"
| "body E GenerateKey = replying (\<lambda>c. Value (Some c)) (generateKey_body E)"
| "body E (ActivateKey certificate) = replying (\<lambda>c. Value (Some c)) (activateKey_body E certificate)"
| "body E (NotarizeComponent component) = replying (\<lambda>c. Value (Some c)) (notarizeComponent_body E component)"
| "body E (ValidDocument document certificate) = replying Truth (validDocument_body E document certificate)"
| "body E (CiteDocument document) = replying (\<lambda>c. Value (Some c)) (citeDocument_body E document)"
| "body E (CitationMatches citation document) = replying Truth (citationMatches_body E citation document)"
| "body E RefreshKey = replying (\<lambda>c. Value (Some c)) (refreshKey_body E)"
| "body E ForgetKey = replying (\<lambda>u. Done) forgetKey_body"

fun invoke :: "env \<Rightarrow> call \<Rightarrow> (notary, reply) prog" where
  "invoke E GetProtocols = replying Protocols getProtocols"
| "invoke E GetCitation = replying Value (getCitation E)"
| "invoke E GenerateKey = replying (\<lambda>c. Value (Some c)) (generateKey E)"
| "invoke E (ActivateKey certificate) = replying (\<lambda>c. Value (Some c)) (activateKey E certificate)"
| "invoke E (NotarizeComponent component) = replying (\<lambda>c. Value (Some c)) (notarizeComponent E component)"
| "invoke E (ValidDocument document certificate) = replying Truth (validDocument E document certificate)"
| "invoke E (CiteDocument document) = replying (\<lambda>c. Value (Some c)) (citeDocument E document)"
| "invoke E (CitationMatches citation document) = replying Truth (citationMatches E citation document)"
| "invoke E RefreshKey = replying (\<lambda>c. Value (Some c)) (refreshKey E)"
| "invoke E ForgetKey = replying (\<lambda>u. Done) forgetKey"

datatype SSM_call =
    GetTag
  | GetProtocol
  | GenerateKeys
  | RotateKeys
  | EraseKeys
  | DigestBytes bytes
  | SignBytes bytes
  | ValidSignature "component option" "component option" bytes

fun SSM_procedure :: "SSM_call \<Rightarrow> string" where
  "SSM_procedure GetTag = ''$getTag''"
| "SSM_procedure GetProtocol = ''$getProtocol''"
| "SSM_procedure GenerateKeys = ''$generateKeys''"
| "SSM_procedure RotateKeys = ''$rotateKeys''"
| "SSM_procedure EraseKeys = ''$eraseKeys''"
| "SSM_procedure (DigestBytes bytes) = ''$digestBytes''"
| "SSM_procedure (SignBytes bytes) = ''$signBytes''"
| "SSM_procedure (ValidSignature aPublicKey signature bytes) = ''$validSignature''"

fun SSM_event :: "SSM_call \<Rightarrow> string option" where
  "SSM_event GenerateKeys = Some ''$generateKeys''"
| "SSM_event (SignBytes bytes) = Some ''$signBytes''"
| "SSM_event RotateKeys = Some ''$rotateKeys''"
| "SSM_event _ = None"

fun SSM_body :: "env \<Rightarrow> SSM_call \<Rightarrow> (ssm, reply) prog" where
  "SSM_body E GetTag = replying Value (getTag_body E)"
| "SSM_body E GetProtocol = replying (\<lambda>c. Value (Some c)) getProtocol_body"
| "SSM_body E GenerateKeys = replying Value (generateKeys_body E)"
| "SSM_body E RotateKeys = replying Value (rotateKeys_body E)"
| "SSM_body E EraseKeys = replying Truth eraseKeys_body"
| "SSM_body E (DigestBytes bytes) = replying (\<lambda>c. Value (Some c)) (digestBytes_body E bytes)"
| "SSM_body E (SignBytes bytes) = replying (\<lambda>c. Value (Some c)) (signBytes_body E bytes)"
| "SSM_body E (ValidSignature aPublicKey signature bytes) = replying Truth (validSignature_body E aPublicKey signature bytes)"

fun SSM_invoke :: "env \<Rightarrow> SSM_call \<Rightarrow> (ssm, reply) prog" where
  "SSM_invoke E GetTag = replying Value (getTag E)"
| "SSM_invoke E GetProtocol = replying (\<lambda>c. Value (Some c)) getProtocol"
| "SSM_invoke E GenerateKeys = replying Value (generateKeys E)"
| "SSM_invoke E RotateKeys = replying Value (rotateKeys E)"
| "SSM_invoke E EraseKeys = replying Truth eraseKeys"
| "SSM_invoke E (DigestBytes bytes) = replying (\<lambda>c. Value (Some c)) (digestBytes E bytes)"
| "SSM_invoke E (SignBytes bytes) = replying (\<lambda>c. Value (Some c)) (signBytes E bytes)"
| "SSM_invoke E (ValidSignature aPublicKey signature bytes) = replying Truth (validSignature E aPublicKey signature bytes)"

section \<open>Sample values\<close>

text \<open>
  A small instance of the external collaborators, on which the operations can
  be run: a serialization that lists the keys of a catalog, a key pair that is
  a seed under two prefixes, a signature that is the seed followed by the
  message, a verification that throws on an empty key, and a digest that keeps
  eight bytes.
\<close>

definition demo_format :: "component \<Rightarrow> bytes" where
  "demo_format c = (case c of Elem _ \<Rightarrow> ''element'' | Catalog as ps \<Rightarrow> concat (map fst as) @ concat (map fst ps))"

definition demo_env :: env where
  "demo_env =
     \<lparr>format = demo_format,
      nextVersion = (\<lambda>ns. butlast ns @ [Suc (last ns)]),
      convertUndefined = Inl TypeError,
      createKeyPair = (\<lambda>seed. (CHR ''P'' # seed, CHR ''S'' # seed)),
      sign = (\<lambda>bytes publicKey privateKey. tl privateKey @ bytes),
      verify = (\<lambda>signature bytes publicKey.
                  if publicKey = [] then None else Some (signature = tl publicKey @ bytes)),
      hash = take 8,
      v1_validSignature = (\<lambda>publicKey signature bytes. Inr False),
      v1_digestBytes = (\<lambda>bytes. Inr (Elem (Binary bytes)))\<rparr>"

definition demo_disk :: "attributes option \<Rightarrow> disk" where
  "demo_disk c = \<lparr>content = c, journal = [], faulty = (\<lambda>n. False)\<rparr>"

text \<open>A security module newly constructed over a file with the given content.\<close>

definition demo_ssm :: "attributes option \<Rightarrow> ssm" where
  "demo_ssm c =
     \<lparr>ssm_disk = demo_disk c, ssm_configuration = None, ssm_controller = None,
      ssm_entropy = (\<lambda>n. replicate (Suc n) CHR ''r''), ssm_draws = 0\<rparr>"

definition demo_loneKey :: attributes where
  "demo_loneKey =
     [(''$tag'', Elem (Tag ''#SSM'')), (''$state'', Elem (Symbol ''$loneKey'')),
      (''$publicKey'', Elem (Binary ''Pone'')), (''$privateKey'', Elem (Binary ''Sone''))]"

definition demo_twoKeys :: attributes where
  "demo_twoKeys =
     [(''$tag'', Elem (Tag ''#SSM'')), (''$state'', Elem (Symbol ''$twoKeys'')),
      (''$publicKey'', Elem (Binary ''Ptwo'')), (''$privateKey'', Elem (Binary ''Stwo'')),
      (''$previousPublicKey'', Elem (Binary ''Pone'')),
      (''$previousPrivateKey'', Elem (Binary ''Sone''))]"

text \<open>A notary newly constructed over a file with the given content, around the
  given security module.\<close>

definition demo_notary :: "attributes option \<Rightarrow> ssm \<Rightarrow> notary" where
  "demo_notary c t =
     \<lparr>account = Elem (Tag ''#ACCOUNT''), notary_disk = demo_disk c, configuration = None,
      controller = None, securityModule = t,
      entropy = (\<lambda>n. replicate (Suc n) CHR ''t''), draws = 0,
      clock = (\<lambda>n. replicate (Suc n) CHR ''m''), ticks = 0\<rparr>"

text \<open>The values of a first use: the certificate that \<open>generateKey\<close> returns, its
  notarized form, the citation that \<open>activateKey\<close> returns, and the configurations
  the notary holds on the way.\<close>

definition demo_certificate :: component where
  "demo_certificate =
     certificateCatalog (Elem (Moment ''m'')) (Elem (Tag ''#ACCOUNT'')) (Elem (Binary ''Pone''))
       (Elem (Tag ''t'')) (Elem (Version [1])) (Elem Pattern_NONE)"

definition demo_document :: component where
  "demo_document =
     Catalog
       [(''$component'', demo_certificate), (''$protocol'', protocol),
        (''$timestamp'', Elem (Moment ''mm'')), (''$certificate'', Elem Pattern_NONE),
        (''$signature'', Elem (Binary ''one$component$protocol$timestamp$certificate$type''))]
       [(''$type'', Elem (Name ''/bali/notary/Document/v1''))]"

definition demo_citation :: component where
  "demo_citation =
     citationCatalog (Elem (Moment ''mmm'')) (Elem (Tag ''t'')) (Elem (Version [1]))
       (Elem (Binary ''$compone''))"

definition demo_limited :: attributes where
  "demo_limited = [(''$state'', Elem (Symbol ''$limited''))]"

definition demo_pending :: attributes where
  "demo_pending = [(''$state'', Elem (Symbol ''$pending'')), (''$certificate'', demo_certificate)]"

definition demo_enabled :: attributes where
  "demo_enabled =
     [(''$state'', Elem (Symbol ''$enabled'')), (''$certificate'', demo_document),
      (''$citation'', demo_citation)]"


text \<open>The notarized certificate that \<open>refreshKey\<close> returns on the sample notary.\<close>

definition demo_refreshed :: component where
  "demo_refreshed =
     Catalog
       [(''$component'',
         certificateCatalog (Elem (Moment ''m'')) (Elem (Tag ''#ACCOUNT'')) (Elem (Binary ''Pr''))
           (Elem (Tag ''t'')) (Elem (Version [2])) demo_citation),
        (''$protocol'', protocol), (''$timestamp'', Elem (Moment ''m'')),
        (''$certificate'', demo_citation),
        (''$signature'', Elem (Binary ''one$component$protocol$timestamp$certificate$type''))]
       [(''$type'', Elem (Name ''/bali/notary/Document/v1''))]"




subsection \<open>What a produced catalog carries\<close>

text \<open>
  Every catalog built by \<open>citationCatalog\<close>, \<open>certificateCatalog\<close> and
  \<open>documentCatalog\<close> has the attribute \<open>$protocol\<close> set to the constant
  \<open>PROTOCOL\<close> and a \<open>$type\<close> parameter ending in it. The predicate reads both
  from a component.
\<close>

definition carries_v1 :: "string \<Rightarrow> component \<Rightarrow> bool" where
  "carries_v1 type c \<longleftrightarrow>
     componentValue c ''$protocol'' = Inr (Some protocol) \<and> getParameter c ''$type'' = Some (Elem (Name type))"

text \<open>A citation that names the protocol \<open>v2\<close>, which the registry does not have.\<close>

definition demo_citation2 :: component where
  "demo_citation2 =
     Catalog
       [(''$protocol'', Elem (Version [2])), (''$timestamp'', Elem (Moment ''m'')), (''$tag'', Elem (Tag ''t'')),
        (''$version'', Elem (Version [1])), (''$digest'', Elem (Binary ''$compone''))]
       [(''$type'', Elem (Name ''/bali/notary/Citation/v2''))]"

section \<open>Properties\<close>

subsection \<open>Basic facts\<close>

lemmas prog_defs = returns_def throws_def bind_def lift_def catching_def

text \<open>The definitions that running an operation on sample values unfolds.\<close>

lemmas ssm_defs =
  SSM_REQUESTS_def SSM_STATES_def ssm_random_def ssm_io_def ssm_exception_def SSM_storeConfiguration_def
  SSM_loadConfiguration_def SSM_deleteConfiguration_def SSM_checkState_def SSM_getAttribute_def
  SSM_setAttribute_def SSM_removeAttributes_def SSM_validateEvent_def SSM_transitionState_def SSM_store_def
  newKeyPair_def finish_def generateKeys_body_def generateKeys_def movePrevious_def rotateKeys_body_def
  rotateKeys_def retrieveKeys_def signBytes_body_def signBytes_def digestBytes_def digestBytes_body_def
  validSignature_def validSignature_body_def getAttribute_def setAttribute_def removeAttributes_def
  binaryValue.simps moduleName_def

lemmas notary_defs =
  REQUESTS_def STATES_def bali_tag_def bali_moment_def notary_io_def module_def
  storeConfiguration_def loadConfiguration_def checkState_def notary_getValue_def notary_setValue_def
  notary_validateEvent_def notary_transitionState_def notary_store_def updateState_def convert_def defined_def
  withValue_def successor_def componentValue_def getValue_def notary_exception_def

lemmas framework_defs =
  configurator_load_def configurator_store_def configurator_delete_def nextState_def validateEvent_def
  transitionState_def toString_def prog_defs Let_def bali_exception_def exceptionModule_def
  TypeError_def plainError_def

lemmas demo_defs = demo_env_def demo_format_def demo_disk_def demo_ssm_def demo_notary_def

declare activation.simps [simp del] validDocument_body.simps [simp del] citing.simps [simp del]
  citationMatches_body.simps [simp del] extraction.simps [simp del]

lemma getValue_setValue:
  "getValue (setValue as k v) k' = (if k' = k then Some v else getValue as k')"
  by (induction as) (auto simp: getValue_def)

lemma getAttribute_setAttribute:
  "getAttribute (setAttribute as k v) k' = (if k' = k then Some v else getAttribute as k')"
  by (simp add: getAttribute_def setAttribute_def getValue_setValue)

lemma getAttribute_removeAttributes:
  "getAttribute (removeAttributes as ks) k = (if k \<in> set ks then None else getAttribute as k)"
  by (induction as) (auto simp: getAttribute_def getValue_def removeAttributes_def)

lemma catching_check:
  assumes "m s = (Inr (), s1)" and "m s1 = (Inr (), s1)"
  shows "catching as (bind m f) s = catching as (bind m f) s1"
  using assms by (simp add: prog_defs)

text \<open>Which causes are wrapped and which are handed back.\<close>

lemma bali_exception_JsError [simp]:
  "bali_exception as (JsError m) = Exception as (Some (JsError m))"
  by (simp add: bali_exception_def exceptionModule_def)

lemma bali_exception_TypeError [simp]:
  "bali_exception as TypeError = Exception as (Some TypeError)"
  by (simp add: TypeError_def)

lemma bali_exception_plainError [simp]:
  "bali_exception as plainError = Exception as (Some plainError)"
  by (simp add: plainError_def)

lemma bali_exception_invalidEvent [simp]:
  "bali_exception as invalidEvent = Exception as (Some invalidEvent)"
  by (simp add: bali_exception_def exceptionModule_def invalidEvent_def)

lemma bali_exception_foreign:
  "exceptionModule cause \<noteq> map_of as ''$module'' \<Longrightarrow> bali_exception as cause = Exception as (Some cause)"
  by (simp add: bali_exception_def)

lemma bali_exception_own:
  "exceptionModule cause = Some m \<Longrightarrow> map_of as ''$module'' = Some m \<Longrightarrow> bali_exception as cause = cause"
  by (simp add: bali_exception_def)

lemma attributesEqual_same:
  "(\<And>a. a \<in> set as \<Longrightarrow> isEqualTo (snd a) (snd a)) \<Longrightarrow> attributesEqual as as"
  by (induction as) auto

lemma isEqualTo_refl [simp]:
  "isEqualTo c c"
proof (induction c)
  case (Elem x)
  show ?case by simp
next
  case (Catalog as ps)
  have "\<And>a. a \<in> set as \<Longrightarrow> isEqualTo (snd a) (snd a)"
  proof -
    fix a assume "a \<in> set as"
    moreover have "snd a \<in> Basic_BNFs.snds a"
      by (cases a) simp
    ultimately show "isEqualTo (snd a) (snd a)"
      by (rule Catalog.IH(1))
  qed
  then have "attributesEqual as as"
    by (rule attributesEqual_same)
  then show ?case
    by simp
qed

text \<open>The comparison does not see the parameters of the two catalogs.\<close>

lemma attributesEqual_refl [simp]:
  "attributesEqual as as"
  by (rule attributesEqual_same) simp


lemma notary_module [simp]:
  "map_of (notary_exception proc kind) ''$module'' = Some ''/bali/notary/DigitalNotary''"
  by (simp add: notary_exception_def)

lemma ssm_module [simp]:
  "map_of (ssm_exception proc kind) ''$module'' = Some ''/bali/notary/v2/SSM''"
  by (simp add: ssm_exception_def moduleName_def)

lemma bali_exception_notary [simp]:
  "bali_exception (notary_exception proc kind) (Exception (notary_exception proc' kind') cause) =
     Exception (notary_exception proc' kind') cause"
  by (simp add: bali_exception_def exceptionModule_def)

lemma bali_exception_ssm [simp]:
  "bali_exception (notary_exception proc kind) (Exception (ssm_exception proc' kind') cause) =
     Exception (notary_exception proc kind) (Some (Exception (ssm_exception proc' kind') cause))"
  by (simp add: bali_exception_def exceptionModule_def)



subsection \<open>The security module\<close>

lemma SSM_checkState_loaded:
  "ssm_configuration s = Some c \<Longrightarrow> SSM_checkState E s = (Inr (), s)"
  by (simp add: SSM_checkState_def)

lemma SSM_checkState_result:
  "SSM_checkState E s = (Inr (), s1) \<Longrightarrow> SSM_checkState E s1 = (Inr (), s1)"
  by (auto simp: SSM_checkState_def prog_defs Let_def split: option.splits prod.splits sum.splits)

lemma next_signBytes:
  "st = ''$loneKey'' \<or> st = ''$twoKeys'' \<Longrightarrow>
   nextState SSM_REQUESTS SSM_STATES st ''$signBytes'' = Inr (Some ''$loneKey'')"
  by (auto simp: nextState_def SSM_REQUESTS_def SSM_STATES_def)

lemma finish_ok:
  assumes "ssm_configuration s = Some c" "ssm_controller s = Some st"
    and "nextState SSM_REQUESTS SSM_STATES st ev = Inr (Some nx)"
    and "\<not> faulty (ssm_disk s) (length (journal (ssm_disk s)))"
  shows "finish ev s = (Inr (),
     s\<lparr>ssm_controller := Some nx,
       ssm_configuration := Some (setAttribute c ''$state'' (Elem (Symbol nx))),
       ssm_disk := (ssm_disk s)\<lparr>journal := journal (ssm_disk s) @ [Store (setAttribute c ''$state'' (Elem (Symbol nx)))],
                               content := Some (setAttribute c ''$state'' (Elem (Symbol nx)))\<rparr>\<rparr>)"
  using assms
  by (simp add: finish_def SSM_transitionState_def transitionState_def SSM_setAttribute_def
      SSM_store_def SSM_storeConfiguration_def ssm_io_def configurator_store_def prog_defs Let_def)

lemma signBytes_loaded:
  assumes "ssm_configuration s1 = Some c" "ssm_controller s1 = Some st"
    and "st = ''$loneKey'' \<or> st = ''$twoKeys''"
    and "getAttribute c ''$publicKey'' = Some (Elem (Binary pk))"
    and "getAttribute c ''$privateKey'' = Some (Elem (Binary sk))"
    and "getAttribute c ''$previousPublicKey'' = None \<or>
         getAttribute c ''$previousPublicKey'' = Some (Elem (Binary ppk)) \<and>
         getAttribute c ''$previousPrivateKey'' = Some (Elem (Binary psk))"
    and "\<not> faulty (ssm_disk s1) (length (journal (ssm_disk s1)))"
    and "c' = setAttribute (if getAttribute c ''$previousPublicKey'' = None then c
               else removeAttributes c [''$previousPublicKey'', ''$previousPrivateKey''])
               ''$state'' (Elem (Symbol ''$loneKey''))"
  shows "signBytes E bytes s1 =
      (Inr (Elem (Binary (if getAttribute c ''$previousPublicKey'' = None
                          then sign E bytes pk sk else sign E bytes ppk psk))),
       s1\<lparr>ssm_controller := Some ''$loneKey'',
          ssm_configuration := Some c',
          ssm_disk := (ssm_disk s1)\<lparr>journal := journal (ssm_disk s1) @ [Store c'], content := Some c'\<rparr>\<rparr>)"
proof (cases "getAttribute c ''$previousPublicKey''")
  case None
  have r: "retrieveKeys s1 = (Inr (Some (Elem (Binary pk)), Some (Elem (Binary sk))), s1)"
    using assms None by (simp add: retrieveKeys_def SSM_getAttribute_def prog_defs)
  show ?thesis
    using assms None next_signBytes[OF assms(3)]
    by (simp add: signBytes_def signBytes_body_def SSM_checkState_loaded SSM_validateEvent_def
        validateEvent_def r binaryValue.simps finish_ok prog_defs)
next
  case (Some a)
  let ?s2 = "s1\<lparr>ssm_configuration := Some (removeAttributes c [''$previousPublicKey'', ''$previousPrivateKey''])\<rparr>"
  have r: "retrieveKeys s1 = (Inr (Some (Elem (Binary ppk)), Some (Elem (Binary psk))), ?s2)"
    using assms Some by (simp add: retrieveKeys_def SSM_getAttribute_def SSM_removeAttributes_def prog_defs)
  have f: "finish ''$signBytes'' ?s2 = (Inr (),
       s1\<lparr>ssm_controller := Some ''$loneKey'',
          ssm_configuration := Some c',
          ssm_disk := (ssm_disk s1)\<lparr>journal := journal (ssm_disk s1) @ [Store c'], content := Some c'\<rparr>\<rparr>)"
    using finish_ok[of ?s2 _ st "''$signBytes''" "''$loneKey''"] assms Some next_signBytes[OF assms(3)]
    by simp
  show ?thesis
    using assms Some next_signBytes[OF assms(3)]
    by (simp add: signBytes_def signBytes_body_def SSM_checkState_loaded SSM_validateEvent_def
        validateEvent_def r binaryValue.simps f prog_defs)
qed

lemma signBytes_check:
  "SSM_checkState E s = (Inr (), s1) \<Longrightarrow> signBytes E bytes s = signBytes E bytes s1"
  unfolding signBytes_def signBytes_body_def
  by (rule catching_check) (simp_all add: SSM_checkState_result)

lemma demo_ssm_check:
  "getAttribute c ''$state'' = Some (Elem (Symbol st)) \<Longrightarrow>
   SSM_checkState E (demo_ssm (Some c)) =
     (Inr (), (demo_ssm (Some c))
        \<lparr>ssm_disk := (demo_disk (Some c))\<lparr>journal := [Load]\<rparr>,
         ssm_configuration := Some c, ssm_controller := Some st\<rparr>)"
  by (simp add: SSM_checkState_def SSM_loadConfiguration_def ssm_io_def configurator_load_def
      demo_ssm_def demo_disk_def toString_def prog_defs Let_def)

text \<open>
  C1. A call of \<open>signBytes\<close> in the state \<open>$loneKey\<close> or \<open>$twoKeys\<close>, once the
  configuration is loaded: when the configuration holds the previous key pair,
  the signature is made with the previous keys and both previous attributes are
  removed in the same call; when it holds no \<open>$previousPublicKey\<close>, the signature
  is made with the current keys. In both cases the state becomes \<open>$loneKey\<close> and
  the new configuration is what the file then holds.
\<close>

theorem signBytes_key_selection:
  assumes "SSM_checkState E s = (Inr (), s1)"
    and "ssm_configuration s1 = Some c" and "ssm_controller s1 = Some st"
    and "st = ''$loneKey'' \<or> st = ''$twoKeys''"
    and "getAttribute c ''$publicKey'' = Some (Elem (Binary pk))"
    and "getAttribute c ''$privateKey'' = Some (Elem (Binary sk))"
    and "getAttribute c ''$previousPublicKey'' = None \<or>
         getAttribute c ''$previousPublicKey'' = Some (Elem (Binary ppk)) \<and>
         getAttribute c ''$previousPrivateKey'' = Some (Elem (Binary psk))"
    and "\<not> faulty (ssm_disk s1) (length (journal (ssm_disk s1)))"
  shows "let c' = setAttribute (if getAttribute c ''$previousPublicKey'' = None then c
               else removeAttributes c [''$previousPublicKey'', ''$previousPrivateKey''])
               ''$state'' (Elem (Symbol ''$loneKey''))
    in signBytes E bytes s =
      (Inr (Elem (Binary (if getAttribute c ''$previousPublicKey'' = None
                          then sign E bytes pk sk else sign E bytes ppk psk))),
       s1\<lparr>ssm_controller := Some ''$loneKey'',
          ssm_configuration := Some c',
          ssm_disk := (ssm_disk s1)\<lparr>journal := journal (ssm_disk s1) @ [Store c'], content := Some c'\<rparr>\<rparr>)
    \<and> getAttribute c' ''$previousPublicKey'' = None
    \<and> (getAttribute c ''$previousPublicKey'' = None \<or> getAttribute c' ''$previousPrivateKey'' = None)
    \<and> getAttribute c' ''$state'' = Some (Elem (Symbol ''$loneKey''))
    \<and> getAttribute c' ''$publicKey'' = Some (Elem (Binary pk))
    \<and> getAttribute c' ''$privateKey'' = Some (Elem (Binary sk))"
proof -
  define c' where "c' = setAttribute (if getAttribute c ''$previousPublicKey'' = None then c
               else removeAttributes c [''$previousPublicKey'', ''$previousPrivateKey''])
               ''$state'' (Elem (Symbol ''$loneKey''))"
  have "signBytes E bytes s = signBytes E bytes s1"
    using assms(1) by (rule signBytes_check)
  moreover note signBytes_loaded[OF assms(2-8) c'_def, of E bytes]
  moreover have "getAttribute c' ''$previousPublicKey'' = None"
    using assms(7) c'_def by (auto simp: getAttribute_setAttribute getAttribute_removeAttributes)
  moreover have "getAttribute c ''$previousPublicKey'' = None \<or> getAttribute c' ''$previousPrivateKey'' = None"
    using assms(7) c'_def by (auto simp: getAttribute_setAttribute getAttribute_removeAttributes)
  moreover have "getAttribute c' ''$state'' = Some (Elem (Symbol ''$loneKey''))"
    using c'_def by (simp add: getAttribute_setAttribute)
  moreover have "getAttribute c' ''$publicKey'' = Some (Elem (Binary pk))"
    "getAttribute c' ''$privateKey'' = Some (Elem (Binary sk))"
    using assms(5,6) c'_def by (auto simp: getAttribute_setAttribute getAttribute_removeAttributes)
  ultimately show ?thesis unfolding Let_def c'_def[symmetric] by simp
qed

theorem signBytes_key_selection_witness:
  "fst (signBytes demo_env ''doc'' (demo_ssm (Some demo_twoKeys))) = Inr (Elem (Binary ''onedoc''))
   \<and> content (ssm_disk (snd (signBytes demo_env ''doc'' (demo_ssm (Some demo_twoKeys))))) =
       Some [(''$tag'', Elem (Tag ''#SSM'')), (''$state'', Elem (Symbol ''$loneKey'')),
             (''$publicKey'', Elem (Binary ''Ptwo'')), (''$privateKey'', Elem (Binary ''Stwo''))]
   \<and> fst (signBytes demo_env ''doc'' (demo_ssm (Some demo_loneKey))) = Inr (Elem (Binary ''onedoc''))
   \<and> content (ssm_disk (snd (signBytes demo_env ''doc'' (demo_ssm (Some demo_loneKey))))) = Some demo_loneKey"
proof -
  have two: "getAttribute demo_twoKeys ''$state'' = Some (Elem (Symbol ''$twoKeys''))"
    and one: "getAttribute demo_loneKey ''$state'' = Some (Elem (Symbol ''$loneKey''))"
    by (simp_all add: demo_twoKeys_def demo_loneKey_def getAttribute_def getValue_def)
  show ?thesis
    using signBytes_key_selection[OF demo_ssm_check[OF two], where pk = "''Ptwo''" and sk = "''Stwo''"
          and ppk = "''Pone''" and psk = "''Sone''" and st = "''$twoKeys''" and c = demo_twoKeys
          and bytes = "''doc''" and E = demo_env]
      signBytes_key_selection[OF demo_ssm_check[OF one], where pk = "''Pone''" and sk = "''Sone''"
          and ppk = "[]" and psk = "[]" and st = "''$loneKey''" and c = demo_loneKey
          and bytes = "''doc''" and E = demo_env]
    by (simp add: demo_twoKeys_def demo_loneKey_def getAttribute_def getValue_def
        setAttribute_def removeAttributes_def demo_env_def demo_ssm_def demo_disk_def Let_def)
qed


subsection \<open>Loading the configuration and checking the event\<close>

lemma bind_check:
  "m s = (Inr (), s1) \<Longrightarrow> bind m f s = f () s1"
  by (simp add: bind_def)

lemma bind_Inl:
  "m s = (Inl e, s1) \<Longrightarrow> bind m f s = (Inl e, s1)"
  by (simp add: bind_def)

lemma bind_check_same:
  "m s = (Inr (), s1) \<Longrightarrow> m s1 = (Inr (), s1) \<Longrightarrow> bind m f s = bind m f s1"
  by (simp add: bind_def)

lemma notary_validateEvent_illegal:
  "controller s = Some st \<Longrightarrow> nextState REQUESTS STATES st ev = Inr None \<Longrightarrow>
   notary_validateEvent ev s = (Inl invalidEvent, s)"
  by (simp add: notary_validateEvent_def validateEvent_def)

lemma updateState_illegal:
  "controller s = Some st \<Longrightarrow> nextState REQUESTS STATES st ev = Inr None \<Longrightarrow>
   updateState ev s = (Inl invalidEvent, s)"
  by (simp add: updateState_def notary_transitionState_def transitionState_def bind_def)

lemma SSM_validateEvent_illegal:
  "ssm_controller s = Some st \<Longrightarrow> nextState SSM_REQUESTS SSM_STATES st ev = Inr None \<Longrightarrow>
   SSM_validateEvent ev s = (Inl plainError, s)"
  by (simp add: SSM_validateEvent_def validateEvent_def)

lemma checkState_content:
  assumes "checkState E s = (Inr (), s1)"
  shows "content (notary_disk s1) =
           (if configuration s = None \<and> content (notary_disk s) = None
            then Some [(''$state'', Elem (Symbol ''$limited''))] else content (notary_disk s))
         \<and> securityModule s1 = securityModule s"
  using assms
  by (auto simp: checkState_def loadConfiguration_def notary_io_def configurator_load_def
      configurator_store_def prog_defs Let_def split: option.splits if_splits prod.splits sum.splits)

lemma SSM_checkState_content:
  assumes "SSM_checkState E s = (Inr (), s1)"
  shows "content (ssm_disk s1) =
           (if ssm_configuration s = None \<and> content (ssm_disk s) = None
            then Some [(''$tag'', Elem (Tag (ssm_entropy s (ssm_draws s)))), (''$state'', Elem (Symbol ''$keyless''))]
            else content (ssm_disk s))"
  using assms
  by (auto simp: SSM_checkState_def SSM_loadConfiguration_def ssm_io_def ssm_random_def configurator_load_def
      configurator_store_def prog_defs Let_def split: option.splits if_splits prod.splits sum.splits)

lemma checkState_loaded:
  "configuration s = Some c \<Longrightarrow> checkState E s = (Inr (), s)"
  by (simp add: checkState_def)

lemma checkState_same:
  "checkState E s = (Inr (), s1) \<Longrightarrow> configuration s \<noteq> None \<Longrightarrow> s1 = s"
  by (auto simp: checkState_def)

lemma checkState_result:
  "checkState E s = (Inr (), s1) \<Longrightarrow> checkState E s1 = (Inr (), s1)"
  by (auto simp: checkState_def prog_defs Let_def split: option.splits prod.splits sum.splits)

lemma SSM_checkState_same:
  "SSM_checkState E s = (Inr (), s1) \<Longrightarrow> ssm_configuration s \<noteq> None \<Longrightarrow> s1 = s"
  by (auto simp: SSM_checkState_def)

lemma demo_notary_check:
  "getValue c ''$state'' = Some (Elem (Symbol st)) \<Longrightarrow>
   checkState E (demo_notary (Some c) t) =
     (Inr (), (demo_notary (Some c) t)
        \<lparr>notary_disk := (demo_disk (Some c))\<lparr>journal := [Load]\<rparr>,
         configuration := Some c, controller := Some st\<rparr>)"
  by (simp add: checkState_def loadConfiguration_def notary_io_def configurator_load_def
      demo_notary_def demo_disk_def toString_def prog_defs Let_def)

lemma setValue_same:
  "getValue c k = Some v \<Longrightarrow> setValue c k v = c"
  by (induction c) (auto simp: getValue_def split: if_splits)

lemma updateState_ok:
  assumes "configuration s = Some c" "controller s = Some st"
    and "nextState REQUESTS STATES st ev = Inr (Some nx)"
    and "\<not> faulty (notary_disk s) (length (journal (notary_disk s)))"
  shows "updateState ev s = (Inr (),
     s\<lparr>controller := Some nx,
       configuration := Some (setValue c ''$state'' (Elem (Symbol nx))),
       notary_disk := (notary_disk s)\<lparr>journal := journal (notary_disk s) @ [Store (setValue c ''$state'' (Elem (Symbol nx)))],
                               content := Some (setValue c ''$state'' (Elem (Symbol nx)))\<rparr>\<rparr>)"
  using assms
  by (simp add: updateState_def notary_transitionState_def transitionState_def notary_setValue_def
      notary_store_def storeConfiguration_def notary_io_def configurator_store_def prog_defs Let_def)

lemma module_digestBytes [simp]:
  "module (digestBytes E bytes) s = (Inr (Elem (Binary (hash E bytes))), s)"
  by (simp add: module_def digestBytes_def digestBytes_body_def prog_defs)

lemma PROTOCOL_v1: "PROTOCOL = ''v1''"
  by (simp add: PROTOCOL_def PROTOCOLS_def)

lemma toString_protocol: "toString E protocol = ''v1''"
  by (simp add: toString_def protocol_def)

lemma toString_version2: "toString E (Elem (Version [2])) = ''v2''"
  by (simp add: toString_def)

lemma findModule_current: "findModule proc ''v1'' = Inr Current"
  by (simp add: findModule_def PROTOCOL_v1)

lemma findModule_unsupported:
  "p \<noteq> ''v1'' \<Longrightarrow> p \<notin> set Object_prototype \<Longrightarrow> findModule proc p = Inl (unsupportedProtocol proc)"
  by (simp add: findModule_def PROTOCOL_v1 PROTOCOLS_at_def PROTOCOLS_def)

lemma findModule_inherited:
  "p \<in> set Object_prototype \<Longrightarrow> findModule proc p = Inr Inherited"
  by (auto simp: findModule_def PROTOCOL_v1 PROTOCOLS_at_def PROTOCOLS_def Object_prototype_def)

lemma module_digestBytes_Current:
  "module_digestBytes E Current bytes s = (Inr (Elem (Binary (hash E bytes))), s)"
  by (simp add: module_digestBytes_def)


subsection \<open>Exceptions of the public operations\<close>

lemma replying_catching:
  "m s = (Inl cause, s') \<Longrightarrow> replying f (catching as m) s = (Inl (bali_exception as cause), s')"
  by (simp add: replying_def catching_def)

lemma replying_Inl:
  "replying f m s = (Inl e, s') \<Longrightarrow> m s = (Inl e, s')"
  by (auto simp: replying_def split: prod.splits sum.splits)


lemma invoke_catches:
  "body E c s = (Inl cause, s') \<Longrightarrow>
   invoke E c s = (Inl (bali_exception (notary_exception (procedure c) ''$unexpected'') cause), s')"
  by (cases c)
    (auto dest!: replying_Inl intro!: replying_catching
       simp: getProtocols_def getCitation_def generateKey_def activateKey_def notarizeComponent_def
         validDocument_def citeDocument_def citationMatches_def refreshKey_def forgetKey_def)


lemma SSM_invoke_catches:
  "SSM_body E c s = (Inl cause, s') \<Longrightarrow>
   SSM_invoke E c s = (Inl (bali_exception (ssm_exception (SSM_procedure c) ''$unexpected'') cause), s')"
  by (cases c)
    (auto dest!: replying_Inl intro!: replying_catching
       simp: getTag_def getProtocol_def generateKeys_def rotateKeys_def eraseKeys_def
         digestBytes_def signBytes_def validSignature_def)

subsection \<open>Events outside the transition tables\<close>

lemma illegal_body:
  assumes "checkState E s = (Inr (), s1)" and "controller s1 = Some st"
    and "event c = Some ev" and "nextState REQUESTS STATES st ev = Inr None"
  shows "body E c s = (Inl invalidEvent, s1)"
proof -
  note v = notary_validateEvent_illegal[OF assms(2,4)] updateState_illegal[OF assms(2,4)]
  show ?thesis
    using assms(3) v
    by (cases c)
      (auto simp: replying_def getCitation_body_def generateKey_body_def activateKey_body_def
          notarizeComponent_body_def refreshKey_body_def
          bind_check[where m = "checkState E", OF assms(1)] bind_Inl)
qed

lemma illegal_invoke:
  assumes "checkState E s = (Inr (), s1)" and "controller s1 = Some st"
    and "event c = Some ev" and "nextState REQUESTS STATES st ev = Inr None"
  shows "invoke E c s = (Inl (Exception (notary_exception ev ''$unexpected'') (Some invalidEvent)), s1)"
proof -
  have "procedure c = ev"
    using assms(3) by (cases c) auto
  then show ?thesis
    using invoke_catches[OF illegal_body[OF assms]] by simp
qed

lemma SSM_illegal_body:
  assumes "SSM_checkState E s = (Inr (), s1)" and "ssm_controller s1 = Some st"
    and "SSM_event c = Some ev" and "nextState SSM_REQUESTS SSM_STATES st ev = Inr None"
  shows "SSM_body E c s = (Inl plainError, s1)"
proof -
  note v = SSM_validateEvent_illegal[OF assms(2,4)]
  show ?thesis
    using assms(3) v
    by (cases c)
      (auto simp: replying_def generateKeys_body_def rotateKeys_body_def signBytes_body_def
          bind_check[where m = "SSM_checkState E", OF assms(1)] bind_Inl)
qed

lemma SSM_illegal_invoke:
  assumes "SSM_checkState E s = (Inr (), s1)" and "ssm_controller s1 = Some st"
    and "SSM_event c = Some ev" and "nextState SSM_REQUESTS SSM_STATES st ev = Inr None"
  shows "SSM_invoke E c s = (Inl (Exception (ssm_exception ev ''$unexpected'') (Some plainError)), s1)"
proof -
  have "SSM_procedure c = ev"
    using assms(3) by (cases c) auto
  then show ?thesis
    using SSM_invoke_catches[OF SSM_illegal_body[OF assms]] by simp
qed

text \<open>
  C4, as the code has it. An operation whose event the state machine does not
  allow from the current state fails, and the configuration in memory, the file
  and the security module are as the load left them: unchanged when the
  configuration was loaded before, and otherwise the file as it was, a missing
  file having been written with the default configuration. What the caller of
  the notary receives is the exception \<open>$unexpected\<close> of the operation, and the
  exception \<open>$invalidEvent\<close> of the controller is its cause. What the caller of
  the security module receives is the exception \<open>$unexpected\<close> of the
  operation, and its cause is the Error that the controller of the module
  throws, which has no exception kind.
\<close>

theorem illegal_event_unexpected:
  "(checkState E s = (Inr (), s1) \<and> controller s1 = Some st \<and> event c = Some ev
      \<and> nextState REQUESTS STATES st ev = Inr None \<longrightarrow>
     invoke E c s = (Inl (Exception (notary_exception ev ''$unexpected'') (Some invalidEvent)), s1)
     \<and> content (notary_disk s1) =
         (if configuration s = None \<and> content (notary_disk s) = None
          then Some [(''$state'', Elem (Symbol ''$limited''))] else content (notary_disk s))
     \<and> securityModule s1 = securityModule s
     \<and> (configuration s = None \<or> s1 = s))
   \<and> (SSM_checkState E t = (Inr (), t1) \<and> ssm_controller t1 = Some st' \<and> SSM_event k = Some ev'
      \<and> nextState SSM_REQUESTS SSM_STATES st' ev' = Inr None \<longrightarrow>
     SSM_invoke E k t = (Inl (Exception (ssm_exception ev' ''$unexpected'') (Some plainError)), t1)
     \<and> content (ssm_disk t1) =
         (if ssm_configuration t = None \<and> content (ssm_disk t) = None
          then Some [(''$tag'', Elem (Tag (ssm_entropy t (ssm_draws t)))), (''$state'', Elem (Symbol ''$keyless''))]
          else content (ssm_disk t))
     \<and> (ssm_configuration t = None \<or> t1 = t))
   \<and> exceptionKind invalidEvent = Some ''$invalidEvent''
   \<and> exceptionKind plainError = None"
proof -
  have "exceptionKind invalidEvent = Some ''$invalidEvent''" "exceptionKind plainError = None"
    by (simp_all add: exceptionKind_def invalidEvent_def plainError_def)
  then show ?thesis
    using illegal_invoke[of E s s1 st c ev] checkState_content[of E s s1] checkState_same[of E s s1]
      SSM_illegal_invoke[of E t t1 st' k ev'] SSM_checkState_content[of E t t1] SSM_checkState_same[of E t t1]
    by blast
qed

text \<open>
  C4 as stated fails: \<open>getCitation\<close> in the state \<open>$limited\<close> does not raise
  an exception of kind \<open>$invalidEvent\<close>.
\<close>

theorem illegal_event_counterexample:
  "\<exists>e. fst (getCitation demo_env (demo_notary (Some demo_limited) (demo_ssm None))) = Inl e
       \<and> exceptionKind e = Some ''$unexpected''
       \<and> exceptionKind e \<noteq> Some ''$invalidEvent''
       \<and> exceptionCause e = Some invalidEvent"
proof -
  have st: "getValue demo_limited ''$state'' = Some (Elem (Symbol ''$limited''))"
    by (simp add: demo_limited_def getValue_def)
  have "nextState REQUESTS STATES ''$limited'' ''$getCitation'' = Inr None"
    by (simp add: nextState_def REQUESTS_def STATES_def)
  then show ?thesis
    by (simp add: getCitation_def getCitation_body_def bind_check[where m = "checkState demo_env", OF demo_notary_check[OF st]]
        updateState_illegal[where st = "''$limited''"] bind_Inl catching_def exceptionKind_def
        exceptionCause_def notary_exception_def)
qed

theorem illegal_event_unexpected_witness:
  "fst (invoke demo_env GetCitation (demo_notary (Some demo_limited) (demo_ssm None))) =
     Inl (Exception (notary_exception ''$getCitation'' ''$unexpected'') (Some invalidEvent))
   \<and> content (notary_disk (snd (invoke demo_env GetCitation (demo_notary (Some demo_limited) (demo_ssm None))))) =
     Some demo_limited
   \<and> fst (SSM_invoke demo_env GenerateKeys (demo_ssm (Some demo_loneKey))) =
     Inl (Exception (ssm_exception ''$generateKeys'' ''$unexpected'') (Some plainError))
   \<and> content (ssm_disk (snd (SSM_invoke demo_env GenerateKeys (demo_ssm (Some demo_loneKey))))) =
     Some demo_loneKey"
proof -
  define s where "s = demo_notary (Some demo_limited) (demo_ssm None)"
  define s1 where "s1 = s\<lparr>notary_disk := (demo_disk (Some demo_limited))\<lparr>journal := [Load]\<rparr>,
         configuration := Some demo_limited, controller := Some ''$limited''\<rparr>"
  define t where "t = demo_ssm (Some demo_loneKey)"
  define t1 where "t1 = t\<lparr>ssm_disk := (demo_disk (Some demo_loneKey))\<lparr>journal := [Load]\<rparr>,
         ssm_configuration := Some demo_loneKey, ssm_controller := Some ''$loneKey''\<rparr>"
  have st: "getValue demo_limited ''$state'' = Some (Elem (Symbol ''$limited''))"
    by (simp add: demo_limited_def getValue_def)
  have one: "getAttribute demo_loneKey ''$state'' = Some (Elem (Symbol ''$loneKey''))"
    by (simp add: demo_loneKey_def getAttribute_def getValue_def)
  have c: "checkState demo_env s = (Inr (), s1)" "controller s1 = Some ''$limited''"
    "SSM_checkState demo_env t = (Inr (), t1)" "ssm_controller t1 = Some ''$loneKey''"
    unfolding s_def s1_def t_def t1_def
    by (simp_all add: demo_notary_check[OF st] demo_ssm_check[OF one])
  have n: "nextState REQUESTS STATES ''$limited'' ''$getCitation'' = Inr None"
    "nextState SSM_REQUESTS SSM_STATES ''$loneKey'' ''$generateKeys'' = Inr None"
    by (simp_all add: nextState_def REQUESTS_def STATES_def SSM_REQUESTS_def SSM_STATES_def)
  have "invoke demo_env GetCitation s =
      (Inl (Exception (notary_exception ''$getCitation'' ''$unexpected'') (Some invalidEvent)), s1)
    \<and> SSM_invoke demo_env GenerateKeys t =
      (Inl (Exception (ssm_exception ''$generateKeys'' ''$unexpected'') (Some plainError)), t1)"
    using illegal_event_unexpected[of demo_env s s1 "''$limited''" GetCitation "''$getCitation''"
        t t1 "''$loneKey''" GenerateKeys "''$generateKeys''"] c n
    by simp
  then show ?thesis
    unfolding s_def[symmetric] t_def[symmetric]
    by (simp add: s1_def t1_def demo_disk_def)
qed


subsection \<open>Propagation of errors\<close>





lemma citationMatches_unsupported:
  assumes "getValue cas ''$protocol'' = Some p"
    and "toString E p \<noteq> ''v1''" and "toString E p \<notin> set Object_prototype"
  shows "citationMatches E (Catalog cas cps) document s = (Inl (unsupportedProtocol ''$citationMatches''), s)"
  using assms
  by (simp add: citationMatches_def citationMatches_body.simps defined_def findModule_unsupported
      unsupportedProtocol_def prog_defs)

lemma validDocument_unsupported:
  assumes "getValue cas ''$protocol'' = Some p"
    and "toString E p \<noteq> ''v1''" and "toString E p \<notin> set Object_prototype"
  shows "validDocument E (Catalog das dps) (Catalog cas cps) s = (Inl (unsupportedProtocol ''$validDocument''), s)"
  using assms
  by (simp add: validDocument_def validDocument_body.simps extraction.simps defined_def findModule_unsupported
      unsupportedProtocol_def prog_defs)









subsection \<open>The citation of the current certificate\<close>

lemma getCitation_loaded:
  assumes "configuration s1 = Some c" and "controller s1 = Some ''$enabled''"
    and "\<not> faulty (notary_disk s1) (length (journal (notary_disk s1)))"
    and "c' = setValue c ''$state'' (Elem (Symbol ''$enabled''))"
  shows "getCitation_body E s1 =
      (Inr (getValue c ''$citation''),
       s1\<lparr>controller := Some ''$enabled'', configuration := Some c',
          notary_disk := (notary_disk s1)\<lparr>journal := journal (notary_disk s1) @ [Store c'], content := Some c'\<rparr>\<rparr>)"
proof -
  have n: "nextState REQUESTS STATES ''$enabled'' ''$getCitation'' = Inr (Some ''$enabled'')"
    by (simp add: nextState_def REQUESTS_def STATES_def)
  have u: "updateState ''$getCitation'' s1 = (Inr (),
       s1\<lparr>controller := Some ''$enabled'', configuration := Some c',
          notary_disk := (notary_disk s1)\<lparr>journal := journal (notary_disk s1) @ [Store c'], content := Some c'\<rparr>\<rparr>)"
    using updateState_ok[OF assms(1,2) n assms(3)] assms(4) by simp
  show ?thesis
    unfolding getCitation_body_def
    apply (subst bind_check[where m = "checkState E", OF checkState_loaded[OF assms(1)]])
    apply (subst bind_check[where m = "updateState ''$getCitation''", OF u])
    apply (simp add: notary_getValue_def getValue_setValue assms(4))
    done
qed

text \<open>
  C9. A call of \<open>getCitation\<close> in the state \<open>$enabled\<close>, the store not
  failing, makes the transition of the state machine, sets \<open>$state\<close> in the
  configuration and stores the whole configuration in the file (one more
  \<open>Store\<close> in the journal of the file); it returns the stored \<open>$citation\<close>, and
  no attribute other than \<open>$state\<close> changes (the configuration is the same one
  when \<open>$state\<close> was \<open>$enabled\<close> already).
\<close>

theorem getCitation_rewrites_file:
  assumes "checkState E s = (Inr (), s1)"
    and "configuration s1 = Some c" and "controller s1 = Some ''$enabled''"
    and "\<not> faulty (notary_disk s1) (length (journal (notary_disk s1)))"
  shows "let c' = setValue c ''$state'' (Elem (Symbol ''$enabled''))
    in getCitation E s =
        (Inr (getValue c ''$citation''),
         s1\<lparr>controller := Some ''$enabled'', configuration := Some c',
            notary_disk := (notary_disk s1)\<lparr>journal := journal (notary_disk s1) @ [Store c'], content := Some c'\<rparr>\<rparr>)
     \<and> (\<forall>k. k = ''$state'' \<or> getValue c' k = getValue c k)
     \<and> getValue c' ''$state'' = Some (Elem (Symbol ''$enabled''))
     \<and> (getValue c ''$state'' = Some (Elem (Symbol ''$enabled'')) \<longrightarrow> c' = c)"
proof -
  have "getCitation_body E s = getCitation_body E s1"
    unfolding getCitation_body_def
    by (rule bind_check_same[OF assms(1) checkState_result[OF assms(1)]])
  then show ?thesis
    using getCitation_loaded[OF assms(2-4) refl, of E]
    by (simp add: getCitation_def catching_def Let_def getValue_setValue setValue_same)
qed

theorem getCitation_rewrites_file_witness:
  "fst (getCitation demo_env (demo_notary (Some demo_enabled) (demo_ssm (Some demo_loneKey)))) = Inr (Some demo_citation)
   \<and> journal (notary_disk (snd (getCitation demo_env (demo_notary (Some demo_enabled) (demo_ssm (Some demo_loneKey))))))
       = [Load, Store demo_enabled]
   \<and> content (notary_disk (snd (getCitation demo_env (demo_notary (Some demo_enabled) (demo_ssm (Some demo_loneKey))))))
       = Some demo_enabled"
proof -
  define s where "s = demo_notary (Some demo_enabled) (demo_ssm (Some demo_loneKey))"
  define s1 where "s1 = s\<lparr>notary_disk := (demo_disk (Some demo_enabled))\<lparr>journal := [Load]\<rparr>,
         configuration := Some demo_enabled, controller := Some ''$enabled''\<rparr>"
  have st: "getValue demo_enabled ''$state'' = Some (Elem (Symbol ''$enabled''))"
    and ci: "getValue demo_enabled ''$citation'' = Some demo_citation"
    by (simp_all add: demo_enabled_def getValue_def)
  have c: "checkState demo_env s = (Inr (), s1)"
    unfolding s_def s1_def by (rule demo_notary_check[OF st])
  have h: "configuration s1 = Some demo_enabled" "controller s1 = Some ''$enabled''"
    "\<not> faulty (notary_disk s1) (length (journal (notary_disk s1)))"
    by (simp_all add: s1_def demo_disk_def)
  note T = getCitation_rewrites_file[OF c h, unfolded Let_def, THEN conjunct1]
  show ?thesis
    unfolding s_def[symmetric]
    by (simp add: T ci setValue_same[OF st] s1_def demo_disk_def)
qed


subsection \<open>Activation\<close>








subsection \<open>Validation of a signature\<close>

lemma validSignature_state: "snd (validSignature E k g b t) = t"
  by (auto simp: validSignature_def validSignature_body_def prog_defs split: sum.splits option.splits)

lemma module_validSignature_Current:
  "module_validSignature E Current k g b s = (fst (validSignature E k g b (securityModule s)), s)"
  using validSignature_state[of E k g b "securityModule s"]
  by (cases "validSignature E k g b (securityModule s)") (simp add: module_validSignature_def module_def)

lemma validSignature_binary:
  "validSignature E (Some (Elem (Binary pk))) (Some (Elem (Binary sg))) b t =
     (case verify E sg b pk of
        None \<Rightarrow> Inl (Exception (ssm_exception ''$validSignature'' ''$unexpected'') (Some plainError))
      | Some isValid \<Rightarrow> Inr isValid, t)"
  by (simp add: validSignature_def validSignature_body_def binaryValue.simps prog_defs split: option.splits)

lemma validSignature_fails:
  assumes "validSignature E k g b t = (Inl e, t')" and "binaryOrUndefined k" and "binaryOrUndefined g"
  shows "e = Exception (ssm_exception ''$validSignature'' ''$unexpected'') (Some TypeError)
   \<or> e = Exception (ssm_exception ''$validSignature'' ''$unexpected'') (Some plainError)"
proof -
  have "k = None \<or> (\<exists>pk. k = Some (Elem (Binary pk)))"
    using assms(2) by (cases k rule: binaryOrUndefined.cases) simp_all
  moreover have "g = None \<or> (\<exists>sg. g = Some (Elem (Binary sg)))"
    using assms(3) by (cases g rule: binaryOrUndefined.cases) simp_all
  ultimately show ?thesis
    using assms(1)
    by (auto simp: validSignature_def validSignature_body_def prog_defs split: sum.splits option.splits)
qed

lemma extraction_document:
  assumes "getValue das ''$component'' = Some component" and "getValue das ''$protocol'' = Some dp"
    and "getValue das ''$timestamp'' = Some timestamp" and "getValue das ''$certificate'' = Some citation"
  shows "extraction (Catalog das dps) [''$component'', ''$protocol'', ''$timestamp'', ''$certificate''] =
     Inr (Catalog [(''$component'', component), (''$protocol'', dp), (''$timestamp'', timestamp),
                   (''$certificate'', citation)] dps)"
  using assms by (simp add: extraction.simps getValue_def)

lemma validDocument_body_eq:
  assumes "extraction (Catalog das dps) [''$component'', ''$protocol'', ''$timestamp'', ''$certificate''] = Inr payload"
    and "getValue cas ''$protocol'' = Some p"
  shows "validDocument_body E (Catalog das dps) (Catalog cas cps) s =
     (case findModule ''$validDocument'' (toString E p) of
        Inl e \<Rightarrow> (Inl e, s)
      | Inr m \<Rightarrow> module_validSignature E m (getValue cas ''$publicKey'') (getValue das ''$signature'')
                  (toString E payload) s)"
  using assms
  by (simp add: validDocument_body.simps defined_def prog_defs Let_def split: sum.splits)

lemma validDocument_true:
  assumes "componentValue certificate ''$protocol'' = Inr (Some p)" and "toString E p = ''v1''"
    and "componentValue certificate ''$publicKey'' = Inr (Some (Elem (Binary pk)))"
    and "getValue das ''$component'' = Some component" and "getValue das ''$protocol'' = Some dp"
    and "getValue das ''$timestamp'' = Some timestamp" and "getValue das ''$certificate'' = Some citation"
    and "getValue das ''$signature'' = Some (Elem (Binary sg))"
    and "payload = Catalog [(''$component'', component), (''$protocol'', dp), (''$timestamp'', timestamp),
                            (''$certificate'', citation)] dps"
    and "verify E sg (toString E payload) pk = Some isValid"
  shows "validDocument E (Catalog das dps) certificate s = (Inr isValid, s)"
proof (cases certificate)
  case (Elem e)
  then show ?thesis using assms(1) by (simp add: componentValue_def)
next
  case (Catalog cas cps)
  have g: "getValue cas ''$protocol'' = Some p" "getValue cas ''$publicKey'' = Some (Elem (Binary pk))"
    using assms(1,3) Catalog by (simp_all add: componentValue_def)
  show ?thesis
    unfolding Catalog validDocument_def catching_def
    by (simp add: validDocument_body_eq[OF extraction_document[OF assms(4-7)] g(1)] assms(2,8,10) g
        findModule_current module_validSignature_Current validSignature_binary assms(9)[symmetric])
qed


subsection \<open>Validation of a notarized document\<close>

lemma validDocument_current:
  assumes "getValue das ''$component'' = Some component" and "getValue das ''$protocol'' = Some dp"
    and "getValue das ''$timestamp'' = Some timestamp" and "getValue das ''$certificate'' = Some citation"
    and "getValue cas ''$protocol'' = Some p" and "toString E p = ''v1''"
    and "payload = Catalog [(''$component'', component), (''$protocol'', dp), (''$timestamp'', timestamp),
                            (''$certificate'', citation)] dps"
    and "binaryOrUndefined (getValue cas ''$publicKey'')" and "binaryOrUndefined (getValue das ''$signature'')"
  shows "validDocument E (Catalog das dps) (Catalog cas cps) s =
          (case fst (validSignature E (getValue cas ''$publicKey'') (getValue das ''$signature'')
                       (toString E payload) (securityModule s)) of
             Inl e \<Rightarrow> (Inl (Exception (notary_exception ''$validDocument'' ''$unexpected'') (Some e)), s)
           | Inr valid \<Rightarrow> (Inr valid, s))"
proof -
  note b = validDocument_body_eq[OF extraction_document[OF assms(1-4)] assms(5), where dps = dps and E = E
      and cps = cps and s = s, folded assms(7)]
  obtain r t where v: "validSignature E (getValue cas ''$publicKey'') (getValue das ''$signature'')
                       (toString E payload) (securityModule s) = (r, t)"
    by (cases "validSignature E (getValue cas ''$publicKey'') (getValue das ''$signature'')
                       (toString E payload) (securityModule s)")
  show ?thesis
  proof (cases r)
    case (Inl e)
    then have "e = Exception (ssm_exception ''$validSignature'' ''$unexpected'') (Some TypeError)
       \<or> e = Exception (ssm_exception ''$validSignature'' ''$unexpected'') (Some plainError)"
      using validSignature_fails[OF _ assms(8,9), of E _ _ e t] v by simp
    then show ?thesis
      using Inl v
      by (auto simp: validDocument_def catching_def b assms(6) findModule_current module_validSignature_Current)
  next
    case (Inr valid)
    then show ?thesis
      using v
      by (simp add: validDocument_def catching_def b assms(6) findModule_current module_validSignature_Current)
  qed
qed

text \<open>
  C3, as the code has it. For a notarized document and a certificate, both
  catalogs: the protocol and the public key are the \<open>$protocol\<close> and the
  \<open>$publicKey\<close> of the certificate argument itself, which is the certificate
  component and not a document around it. When the protocol prints as \<open>v1\<close> the
  security module of the notary is used; for any other protocol (not the name of
  a member that every object inherits) the registry has no module and the call
  fails with the exception \<open>$unsupportedProtocol\<close>. The signature is the
  \<open>$signature\<close> of the document, the payload is the serialization of the copy
  of the document with the attributes \<open>$component\<close>, \<open>$protocol\<close>,
  \<open>$timestamp\<close>, \<open>$certificate\<close> in that order, and the result is that of
  \<open>validSignature\<close> on them: the answer of the verification, and when
  \<open>validSignature\<close> fails (the key or the signature is missing, or the
  verification throws) the exception \<open>$unexpected\<close> of \<open>validDocument\<close> around
  its exception.
\<close>

theorem validDocument_reads_certificate:
  assumes "getValue das ''$component'' = Some component" and "getValue das ''$protocol'' = Some dp"
    and "getValue das ''$timestamp'' = Some timestamp" and "getValue das ''$certificate'' = Some citation"
    and "getValue cas ''$protocol'' = Some p"
    and "payload = Catalog [(''$component'', component), (''$protocol'', dp), (''$timestamp'', timestamp),
                            (''$certificate'', citation)] dps"
  shows "(toString E p = ''v1'' \<and> binaryOrUndefined (getValue cas ''$publicKey'')
         \<and> binaryOrUndefined (getValue das ''$signature'') \<longrightarrow>
        validDocument E (Catalog das dps) (Catalog cas cps) s =
          (case fst (validSignature E (getValue cas ''$publicKey'') (getValue das ''$signature'')
                       (toString E payload) (securityModule s)) of
             Inl e \<Rightarrow> (Inl (Exception (notary_exception ''$validDocument'' ''$unexpected'') (Some e)), s)
           | Inr valid \<Rightarrow> (Inr valid, s)))
    \<and> (toString E p = ''v1'' \<and> getValue cas ''$publicKey'' = Some (Elem (Binary pk))
         \<and> getValue das ''$signature'' = Some (Elem (Binary sg))
         \<and> verify E sg (toString E payload) pk = Some valid \<longrightarrow>
        validDocument E (Catalog das dps) (Catalog cas cps) s = (Inr valid, s))
    \<and> (toString E p = ''v1'' \<and> getValue cas ''$publicKey'' = Some (Elem (Binary pk))
         \<and> getValue das ''$signature'' = Some (Elem (Binary sg))
         \<and> verify E sg (toString E payload) pk = None \<longrightarrow>
        validDocument E (Catalog das dps) (Catalog cas cps) s =
          (Inl (Exception (notary_exception ''$validDocument'' ''$unexpected'')
                  (Some (Exception (ssm_exception ''$validSignature'' ''$unexpected'') (Some plainError)))), s))
    \<and> (toString E p \<noteq> ''v1'' \<and> toString E p \<notin> set Object_prototype \<longrightarrow>
        validDocument E (Catalog das dps) (Catalog cas cps) s = (Inl (unsupportedProtocol ''$validDocument''), s)
        \<and> exceptionKind (unsupportedProtocol ''$validDocument'') = Some ''$unsupportedProtocol'')"
proof (intro conjI impI)
  assume "toString E p = ''v1'' \<and> binaryOrUndefined (getValue cas ''$publicKey'')
         \<and> binaryOrUndefined (getValue das ''$signature'')"
  then show "validDocument E (Catalog das dps) (Catalog cas cps) s =
          (case fst (validSignature E (getValue cas ''$publicKey'') (getValue das ''$signature'')
                       (toString E payload) (securityModule s)) of
             Inl e \<Rightarrow> (Inl (Exception (notary_exception ''$validDocument'' ''$unexpected'') (Some e)), s)
           | Inr valid \<Rightarrow> (Inr valid, s))"
    by (intro validDocument_current[OF assms(1-5) _ assms(6)]) simp_all
next
  assume a: "toString E p = ''v1'' \<and> getValue cas ''$publicKey'' = Some (Elem (Binary pk))
         \<and> getValue das ''$signature'' = Some (Elem (Binary sg))
         \<and> verify E sg (toString E payload) pk = Some valid"
  then show "validDocument E (Catalog das dps) (Catalog cas cps) s = (Inr valid, s)"
    using validDocument_current[OF assms(1-5) _ assms(6), of E cps s]
    by (simp add: validSignature_binary)
next
  assume a: "toString E p = ''v1'' \<and> getValue cas ''$publicKey'' = Some (Elem (Binary pk))
         \<and> getValue das ''$signature'' = Some (Elem (Binary sg))
         \<and> verify E sg (toString E payload) pk = None"
  then show "validDocument E (Catalog das dps) (Catalog cas cps) s =
          (Inl (Exception (notary_exception ''$validDocument'' ''$unexpected'')
                  (Some (Exception (ssm_exception ''$validSignature'' ''$unexpected'') (Some plainError)))), s)"
    using validDocument_current[OF assms(1-5) _ assms(6), of E cps s]
    by (simp add: validSignature_binary)
next
  assume a: "toString E p \<noteq> ''v1'' \<and> toString E p \<notin> set Object_prototype"
  then show "validDocument E (Catalog das dps) (Catalog cas cps) s = (Inl (unsupportedProtocol ''$validDocument''), s)"
    using assms(5) by (simp add: validDocument_unsupported)
  show "exceptionKind (unsupportedProtocol ''$validDocument'') = Some ''$unsupportedProtocol''"
    by (simp add: exceptionKind_def unsupportedProtocol_def notary_exception_def)
qed

text \<open>
  C3 as stated fails: given the notarized certificate as the certifying
  document, whose \<open>$component\<close> holds a supported protocol and the public key
  under which the signature of the document verifies, \<open>validDocument\<close> does not
  return that verification; it fails, because it looks for \<open>$publicKey\<close> in the
  certifying document itself.
\<close>

theorem validDocument_counterexample:
  "componentValue demo_document ''$component'' = Inr (Some demo_certificate)
   \<and> componentValue demo_certificate ''$protocol'' = Inr (Some protocol)
   \<and> componentValue demo_certificate ''$publicKey'' = Inr (Some (Elem (Binary ''Pone'')))
   \<and> componentValue demo_document ''$signature'' =
        Inr (Some (Elem (Binary ''one$component$protocol$timestamp$certificate$type'')))
   \<and> extraction demo_document [''$component'', ''$protocol'', ''$timestamp'', ''$certificate''] =
        Inr (documentCatalog demo_certificate (Elem (Moment ''mm'')) (Elem Pattern_NONE))
   \<and> fst (validSignature demo_env (Some (Elem (Binary ''Pone'')))
        (Some (Elem (Binary ''one$component$protocol$timestamp$certificate$type'')))
        (toString demo_env (documentCatalog demo_certificate (Elem (Moment ''mm'')) (Elem Pattern_NONE)))
        (demo_ssm None)) = Inr True
   \<and> fst (validDocument demo_env demo_document demo_document (demo_notary None (demo_ssm None))) =
        Inl (Exception (notary_exception ''$validDocument'' ''$unexpected'')
              (Some (Exception (ssm_exception ''$validSignature'' ''$unexpected'') (Some TypeError))))"
  by (simp add: validDocument_def validDocument_body.simps extraction.simps module_validSignature_def
      findModule_def PROTOCOL_v1 demo_document_def demo_certificate_def certificateCatalog_def
      documentCatalog_def protocol_def ssm_defs notary_defs framework_defs demo_defs)

theorem validDocument_reads_certificate_witness:
  "fst (validDocument demo_env demo_document demo_certificate (demo_notary None (demo_ssm None))) = Inr True
   \<and> fst (validDocument demo_env demo_document
          (Catalog [(''$protocol'', protocol), (''$publicKey'', Elem (Binary ''Ptwo''))] [])
          (demo_notary None (demo_ssm None))) = Inr False
   \<and> fst (validDocument demo_env demo_document
          (Catalog [(''$protocol'', protocol), (''$publicKey'', Elem (Binary []))] [])
          (demo_notary None (demo_ssm None))) =
       Inl (Exception (notary_exception ''$validDocument'' ''$unexpected'')
              (Some (Exception (ssm_exception ''$validSignature'' ''$unexpected'') (Some plainError))))
   \<and> fst (validDocument demo_env demo_document
          (Catalog [(''$protocol'', Elem (Version [2])), (''$publicKey'', Elem (Binary ''Pone''))] [])
          (demo_notary None (demo_ssm None))) = Inl (unsupportedProtocol ''$validDocument'')"
proof -
  define sg where "sg = ''one$component$protocol$timestamp$certificate$type''"
  define das where "das = [(''$component'', demo_certificate), (''$protocol'', protocol),
        (''$timestamp'', Elem (Moment ''mm'')), (''$certificate'', Elem Pattern_NONE),
        (''$signature'', Elem (Binary sg))]"
  define tas where "tas = [(''$protocol'', protocol), (''$publicKey'', Elem (Binary ''Ptwo''))]"
  define dps where "dps = [(''$type'', Elem (Name ''/bali/notary/Document/v1''))]"
  define cas where "cas = [(''$protocol'', protocol), (''$timestamp'', Elem (Moment ''m'')),
        (''$account'', Elem (Tag ''#ACCOUNT'')), (''$publicKey'', Elem (Binary ''Pone''))]"
  define cps where "cps = [(''$type'', Elem (Name ''/bali/notary/Certificate/v1'')), (''$tag'', Elem (Tag ''t'')),
        (''$version'', Elem (Version [1])),
        (''$permissions'', Elem (Name ''/bali/permissions/public/v1'')),
        (''$previous'', Elem Pattern_NONE)]"
  define eas where "eas = [(''$protocol'', protocol), (''$publicKey'', Elem (Binary []))]"
  define cas2 where "cas2 = [(''$protocol'', Elem (Version [2])), (''$publicKey'', Elem (Binary ''Pone''))]"
  define payload where "payload = Catalog [(''$component'', demo_certificate), (''$protocol'', protocol),
        (''$timestamp'', Elem (Moment ''mm'')), (''$certificate'', Elem Pattern_NONE)] dps"
  define s where "s = demo_notary None (demo_ssm None)"
  have D: "demo_document = Catalog das dps" and C: "demo_certificate = Catalog cas cps"
    by (simp_all add: demo_document_def demo_certificate_def certificateCatalog_def
        das_def dps_def cas_def cps_def sg_def)
  have g: "getValue das ''$component'' = Some demo_certificate" "getValue das ''$protocol'' = Some protocol"
    "getValue das ''$timestamp'' = Some (Elem (Moment ''mm''))" "getValue das ''$certificate'' = Some (Elem Pattern_NONE)"
    and gs: "getValue das ''$signature'' = Some (Elem (Binary sg))"
    and gc: "getValue cas ''$protocol'' = Some protocol" "getValue cas ''$publicKey'' = Some (Elem (Binary ''Pone''))"
    and ge: "getValue eas ''$protocol'' = Some protocol" "getValue eas ''$publicKey'' = Some (Elem (Binary []))"
    and g2: "getValue cas2 ''$protocol'' = Some (Elem (Version [2]))"
    by (simp_all add: das_def cas_def eas_def cas2_def getValue_def)
  have gt: "getValue tas ''$protocol'' = Some protocol" "getValue tas ''$publicKey'' = Some (Elem (Binary ''Ptwo''))"
    by (simp_all add: tas_def getValue_def)
  have t: "toString demo_env payload = ''$component$protocol$timestamp$certificate$type''"
    by (simp add: toString_def payload_def dps_def demo_env_def demo_format_def)
  have vf: "verify demo_env = (\<lambda>signature bytes publicKey.
      if publicKey = [] then None else Some (signature = tl publicKey @ bytes))"
    by (simp add: demo_env_def)
  have v: "verify demo_env sg (toString demo_env payload) ''Pone'' = Some True"
    "verify demo_env sg (toString demo_env payload) [] = None"
    "verify demo_env sg (toString demo_env payload) ''Ptwo'' = Some False"
    by (simp_all add: t sg_def vf)
  have u: "toString demo_env (Elem (Version [2])) \<noteq> ''v1''"
    "toString demo_env (Elem (Version [2])) \<notin> set Object_prototype"
    by (simp_all add: toString_version2 Object_prototype_def)
  note T = validDocument_reads_certificate[OF g gc(1) payload_def, where E = demo_env and cps = cps and s = s
        and pk = "''Pone''" and sg = sg and valid = True]
  note T1 = validDocument_reads_certificate[OF g gt(1) payload_def, where E = demo_env and cps = "[]" and s = s
        and pk = "''Ptwo''" and sg = sg and valid = False]
  note T2 = validDocument_reads_certificate[OF g ge(1) payload_def, where E = demo_env and cps = "[]" and s = s
        and pk = "[]" and sg = sg]
  note T3 = validDocument_reads_certificate[OF g g2 payload_def, where E = demo_env and cps = "[]" and s = s]
  have A: "validDocument demo_env (Catalog das dps) (Catalog cas cps) s = (Inr True, s)"
    using T[THEN conjunct2, THEN conjunct1] gc(2) gs v(1) by (simp add: toString_protocol)
  have A1: "validDocument demo_env (Catalog das dps) (Catalog tas []) s = (Inr False, s)"
    using T1[THEN conjunct2, THEN conjunct1] gt(2) gs v(3) by (simp add: toString_protocol)
  have B: "validDocument demo_env (Catalog das dps) (Catalog eas []) s =
      (Inl (Exception (notary_exception ''$validDocument'' ''$unexpected'')
              (Some (Exception (ssm_exception ''$validSignature'' ''$unexpected'') (Some plainError)))), s)"
    using T2[THEN conjunct2, THEN conjunct2, THEN conjunct1] ge(2) gs v(2) by (simp add: toString_protocol)
  have B2: "validDocument demo_env (Catalog das dps) (Catalog cas2 []) s =
      (Inl (unsupportedProtocol ''$validDocument''), s)"
    using T3[THEN conjunct2, THEN conjunct2, THEN conjunct2] u by simp
  show ?thesis
    unfolding s_def[symmetric] D C tas_def[symmetric] eas_def[symmetric] cas2_def[symmetric]
    by (simp only: A A1 B B2 fst_conv)
qed


subsection \<open>Citations\<close>

lemma citeDocument_eq:
  assumes "getValue das ''$component'' = Some component"
    and "convert E (getParameter component ''$tag'') = Inr tag"
    and "convert E (getParameter component ''$version'') = Inr version"
  shows "citeDocument E (Catalog das dps) s =
     (Inr (citationCatalog (Elem (Moment (clock s (ticks s)))) tag version
            (Elem (Binary (hash E (toString E (Catalog das dps)))))),
      s\<lparr>ticks := Suc (ticks s)\<rparr>)"
  using assms
  by (simp add: citeDocument_def citeDocument_body_def citing.simps bali_moment_def defined_def prog_defs)

lemma citationMatches_eq:
  "citationMatches E (citationCatalog timestamp tag version (Elem (Binary digest))) d s =
     (Inr (hash E (toString E d) = digest), s)"
  by (auto simp: citationMatches_def citationMatches_body.simps citationCatalog_def
      getValue_def defined_def toString_protocol findModule_current module_digestBytes_Current prog_defs)

text \<open>
  C7. For a document with a \<open>$component\<close> that carries the parameters \<open>$tag\<close>
  and \<open>$version\<close>: the citation that \<open>citeDocument\<close> returns holds the digest of
  the bytes of the whole document, signature included, and that citation matches
  the document. For any other document \<open>citationMatches\<close> compares the digest of
  its bytes with the cited digest; when the digest does not collide on the bytes
  of the two documents, the answer is whether the bytes are the same, so it is
  false for a document whose bytes differ.
\<close>

theorem citation_round_trip:
  assumes "getValue das ''$component'' = Some component"
    and "convert E (getParameter component ''$tag'') = Inr tag"
    and "convert E (getParameter component ''$version'') = Inr version"
    and "inj_on (hash E) {toString E (Catalog das dps), toString E d'}"
  shows "let d = Catalog das dps;
             citation = citationCatalog (Elem (Moment (clock s (ticks s)))) tag version
                          (Elem (Binary (hash E (toString E d))))
    in citeDocument E d s = (Inr citation, s\<lparr>ticks := Suc (ticks s)\<rparr>)
       \<and> componentValue citation ''$digest'' = Inr (Some (Elem (Binary (hash E (toString E d)))))
       \<and> citationMatches E citation d s' = (Inr True, s')
       \<and> citationMatches E citation d' s' = (Inr (hash E (toString E d') = hash E (toString E d)), s')
       \<and> citationMatches E citation d' s' = (Inr (toString E d' = toString E d), s')
       \<and> (toString E d' \<noteq> toString E d \<longrightarrow> citationMatches E citation d' s' = (Inr False, s'))"
proof -
  have "hash E (toString E d') = hash E (toString E (Catalog das dps))
      \<longleftrightarrow> toString E d' = toString E (Catalog das dps)"
    using assms(4) by (auto simp: inj_on_def)
  then show ?thesis
    using citeDocument_eq[OF assms(1-3), of dps s]
    by (simp add: Let_def citationMatches_eq) (simp add: citationCatalog_def componentValue_def getValue_def)
qed

theorem citation_round_trip_witness:
  "fst (citeDocument demo_env demo_document (demo_notary None (demo_ssm None))) =
       Inr (citationCatalog (Elem (Moment ''m'')) (Elem (Tag ''t'')) (Elem (Version [1])) (Elem (Binary ''$compone'')))
   \<and> fst (citationMatches demo_env
         (citationCatalog (Elem (Moment ''m'')) (Elem (Tag ''t'')) (Elem (Version [1])) (Elem (Binary ''$compone'')))
         demo_document (demo_notary None (demo_ssm None))) = Inr True
   \<and> fst (citationMatches demo_env
         (citationCatalog (Elem (Moment ''m'')) (Elem (Tag ''t'')) (Elem (Version [1])) (Elem (Binary ''$compone'')))
         (Elem Pattern_NONE) (demo_notary None (demo_ssm None))) = Inr False"
proof -
  define s where "s = demo_notary None (demo_ssm None)"
  define das where "das = [(''$component'', demo_certificate), (''$protocol'', protocol),
        (''$timestamp'', Elem (Moment ''mm'')), (''$certificate'', Elem Pattern_NONE),
        (''$signature'', Elem (Binary ''one$component$protocol$timestamp$certificate$type''))]"
  define dps where "dps = [(''$type'', Elem (Name ''/bali/notary/Document/v1''))]"
  have D: "demo_document = Catalog das dps"
    by (simp add: demo_document_def das_def dps_def)
  have c: "getValue das ''$component'' = Some demo_certificate"
    by (simp add: das_def getValue_def)
  have p: "convert demo_env (getParameter demo_certificate ''$tag'') = Inr (Elem (Tag ''t''))"
    "convert demo_env (getParameter demo_certificate ''$version'') = Inr (Elem (Version [1]))"
    by (simp_all add: convert_def getParameter.simps demo_certificate_def certificateCatalog_def)
  have t: "toString demo_env (Catalog das dps) = ''$component$protocol$timestamp$certificate$signature$type''"
    "toString demo_env (Elem Pattern_NONE) = ''element''"
    by (simp_all add: toString_def das_def dps_def demo_env_def demo_format_def)
  have hs: "hash demo_env = take 8"
    by (simp add: demo_env_def)
  have i: "inj_on (hash demo_env) {toString demo_env (Catalog das dps), toString demo_env (Elem Pattern_NONE)}"
    by (simp add: t hs)
  have k: "clock s (ticks s) = ''m''"
    by (simp add: s_def demo_notary_def)
  note T = citation_round_trip[OF c p i, where s = s and s' = s, unfolded Let_def]
  have R1: "fst (citeDocument demo_env (Catalog das dps) s) =
       Inr (citationCatalog (Elem (Moment ''m'')) (Elem (Tag ''t'')) (Elem (Version [1])) (Elem (Binary ''$compone'')))"
    using T[THEN conjunct1] by (simp add: t hs k)
  have R2: "fst (citationMatches demo_env
         (citationCatalog (Elem (Moment ''m'')) (Elem (Tag ''t'')) (Elem (Version [1])) (Elem (Binary ''$compone'')))
         (Catalog das dps) s) = Inr True"
    using T[THEN conjunct2, THEN conjunct2, THEN conjunct1] by (simp add: t hs k)
  have R3: "fst (citationMatches demo_env
         (citationCatalog (Elem (Moment ''m'')) (Elem (Tag ''t'')) (Elem (Version [1])) (Elem (Binary ''$compone'')))
         (Elem Pattern_NONE) s) = Inr False"
    using T[THEN conjunct2, THEN conjunct2, THEN conjunct2, THEN conjunct2, THEN conjunct2] by (simp add: t hs k)
  show ?thesis
    unfolding s_def[symmetric] D by (simp only: R1 R2 R3)
qed


subsection \<open>Forgetting the key\<close>

lemma eraseKeys_ok:
  assumes "\<not> faulty (ssm_disk t) (length (journal (ssm_disk t)))"
  shows "eraseKeys t = (Inr True,
     t\<lparr>ssm_disk := (ssm_disk t)\<lparr>journal := journal (ssm_disk t) @ [Delete], content := None\<rparr>,
       ssm_configuration := None\<rparr>)"
  using assms
  by (simp add: eraseKeys_def eraseKeys_body_def SSM_deleteConfiguration_def ssm_io_def
      configurator_delete_def prog_defs Let_def)

lemma forgetKey_ok:
  assumes "\<not> faulty (ssm_disk (securityModule s)) (length (journal (ssm_disk (securityModule s))))"
    and "\<not> faulty (notary_disk s) (length (journal (notary_disk s)))"
  shows "forgetKey s = (Inr (),
     s\<lparr>securityModule := (securityModule s)
          \<lparr>ssm_disk := (ssm_disk (securityModule s))
             \<lparr>journal := journal (ssm_disk (securityModule s)) @ [Delete], content := None\<rparr>,
           ssm_configuration := None\<rparr>,
       notary_disk := (notary_disk s)\<lparr>journal := journal (notary_disk s) @ [Delete], content := None\<rparr>,
       configuration := None\<rparr>)"
  using assms
  by (simp add: forgetKey_def forgetKey_body_def module_def eraseKeys_ok deleteConfiguration_def
      notary_io_def configurator_delete_def prog_defs Let_def)

lemma checkState_fresh:
  assumes "configuration s = None" and "content (notary_disk s) = None"
    and "\<not> faulty (notary_disk s) (length (journal (notary_disk s)))"
    and "\<not> faulty (notary_disk s) (Suc (length (journal (notary_disk s))))"
  shows "checkState E s = (Inr (),
     s\<lparr>notary_disk := (notary_disk s)
          \<lparr>journal := journal (notary_disk s) @ [Load, Store [(''$state'', Elem (Symbol ''$limited''))]],
           content := Some [(''$state'', Elem (Symbol ''$limited''))]\<rparr>,
       configuration := Some [(''$state'', Elem (Symbol ''$limited''))],
       controller := Some ''$limited''\<rparr>)"
  using assms
  by (simp add: checkState_def loadConfiguration_def notary_io_def configurator_load_def
      configurator_store_def getValue_def toString_def prog_defs Let_def)

lemma SSM_checkState_fresh:
  assumes "ssm_configuration t = None" and "content (ssm_disk t) = None"
    and "\<not> faulty (ssm_disk t) (length (journal (ssm_disk t)))"
    and "\<not> faulty (ssm_disk t) (Suc (length (journal (ssm_disk t))))"
    and "c = [(''$tag'', Elem (Tag (ssm_entropy t (ssm_draws t)))), (''$state'', Elem (Symbol ''$keyless''))]"
  shows "SSM_checkState E t = (Inr (),
     t\<lparr>ssm_draws := Suc (ssm_draws t),
       ssm_disk := (ssm_disk t)\<lparr>journal := journal (ssm_disk t) @ [Load, Store c], content := Some c\<rparr>,
       ssm_configuration := Some c,
       ssm_controller := Some ''$keyless''\<rparr>)"
  using assms
  by (simp add: SSM_checkState_def SSM_loadConfiguration_def ssm_io_def ssm_random_def configurator_load_def
      configurator_store_def getAttribute_def getValue_def toString_def prog_defs Let_def)

lemma getCitation_fresh:
  assumes "configuration s = None" and "content (notary_disk s) = None"
    and "faulty (notary_disk s) = (\<lambda>n. False)"
  shows "getCitation E s =
     (Inl (Exception (notary_exception ''$getCitation'' ''$unexpected'') (Some invalidEvent)),
      s\<lparr>notary_disk := (notary_disk s)
          \<lparr>journal := journal (notary_disk s) @ [Load, Store [(''$state'', Elem (Symbol ''$limited''))]],
           content := Some [(''$state'', Elem (Symbol ''$limited''))]\<rparr>,
       configuration := Some [(''$state'', Elem (Symbol ''$limited''))],
       controller := Some ''$limited''\<rparr>)"
proof -
  have n: "nextState REQUESTS STATES ''$limited'' ''$getCitation'' = Inr None"
    by (simp add: nextState_def REQUESTS_def STATES_def)
  have c: "checkState E s = (Inr (),
     s\<lparr>notary_disk := (notary_disk s)
          \<lparr>journal := journal (notary_disk s) @ [Load, Store [(''$state'', Elem (Symbol ''$limited''))]],
           content := Some [(''$state'', Elem (Symbol ''$limited''))]\<rparr>,
       configuration := Some [(''$state'', Elem (Symbol ''$limited''))],
       controller := Some ''$limited''\<rparr>)"
    using assms by (intro checkState_fresh) simp_all
  show ?thesis
    unfolding getCitation_def getCitation_body_def catching_def
    apply (subst bind_check[where m = "checkState E", OF c])
    apply (subst bind_Inl[where m = "updateState ''$getCitation''", OF updateState_illegal[OF _ n]])
     apply simp
    apply simp
    done
qed

lemma getTag_fresh:
  assumes "ssm_configuration t = None" and "content (ssm_disk t) = None"
    and "faulty (ssm_disk t) = (\<lambda>n. False)"
    and "c = [(''$tag'', Elem (Tag (ssm_entropy t (ssm_draws t)))), (''$state'', Elem (Symbol ''$keyless''))]"
  shows "getTag E t = (Inr (Some (Elem (Tag (ssm_entropy t (ssm_draws t))))),
     t\<lparr>ssm_draws := Suc (ssm_draws t),
       ssm_disk := (ssm_disk t)\<lparr>journal := journal (ssm_disk t) @ [Load, Store c], content := Some c\<rparr>,
       ssm_configuration := Some c,
       ssm_controller := Some ''$keyless''\<rparr>)"
proof -
  have k: "SSM_checkState E t = (Inr (),
     t\<lparr>ssm_draws := Suc (ssm_draws t),
       ssm_disk := (ssm_disk t)\<lparr>journal := journal (ssm_disk t) @ [Load, Store c], content := Some c\<rparr>,
       ssm_configuration := Some c,
       ssm_controller := Some ''$keyless''\<rparr>)"
    using assms by (intro SSM_checkState_fresh) simp_all
  show ?thesis
    unfolding getTag_def getTag_body_def catching_def
    apply (subst bind_check[where m = "SSM_checkState E", OF k])
    apply (simp add: SSM_getAttribute_def getAttribute_def getValue_def assms(4))
    done
qed

text \<open>
  C8, as the code has it. When no operation on the two files fails, \<open>forgetKey\<close>
  returns, neither file exists afterwards, and both configurations in memory are
  dropped. The next \<open>getCitation\<close> fails with its exception \<open>$unexpected\<close>
  whose cause is \<open>$invalidEvent\<close>, and it has started from \<open>$limited\<close>.
  \<open>eraseKeys\<close> returns true, and returns true again on the erased module; the
  next operation of the erased module loads a configuration with a newly drawn
  \<open>$tag\<close> and the state \<open>$keyless\<close>.
\<close>

theorem forgetKey_erases:
  assumes "faulty (notary_disk s) = (\<lambda>n. False)"
    and "faulty (ssm_disk (securityModule s)) = (\<lambda>n. False)"
  shows "let t = securityModule s;
       t' = t\<lparr>ssm_disk := (ssm_disk t)\<lparr>journal := journal (ssm_disk t) @ [Delete], content := None\<rparr>,
              ssm_configuration := None\<rparr>;
       s' = s\<lparr>securityModule := t',
              notary_disk := (notary_disk s)\<lparr>journal := journal (notary_disk s) @ [Delete], content := None\<rparr>,
              configuration := None\<rparr>;
       tag = Elem (Tag (ssm_entropy t (ssm_draws t)))
    in forgetKey s = (Inr (), s')
     \<and> content (notary_disk s') = None \<and> content (ssm_disk (securityModule s')) = None
     \<and> configuration s' = None \<and> ssm_configuration (securityModule s') = None
     \<and> fst (getCitation E s') =
         Inl (Exception (notary_exception ''$getCitation'' ''$unexpected'') (Some invalidEvent))
     \<and> configuration (snd (getCitation E s')) = Some [(''$state'', Elem (Symbol ''$limited''))]
     \<and> controller (snd (getCitation E s')) = Some ''$limited''
     \<and> eraseKeys t = (Inr True, t')
     \<and> fst (eraseKeys t') = Inr True
     \<and> content (ssm_disk (snd (eraseKeys t'))) = None
     \<and> ssm_configuration (snd (eraseKeys t')) = None
     \<and> fst (getTag E t') = Inr (Some tag)
     \<and> ssm_configuration (snd (getTag E t')) = Some [(''$tag'', tag), (''$state'', Elem (Symbol ''$keyless''))]
     \<and> ssm_controller (snd (getTag E t')) = Some ''$keyless''"
proof -
  define t where "t = securityModule s"
  define t' where "t' = t\<lparr>ssm_disk := (ssm_disk t)\<lparr>journal := journal (ssm_disk t) @ [Delete], content := None\<rparr>,
              ssm_configuration := None\<rparr>"
  define s' where "s' = s\<lparr>securityModule := t',
              notary_disk := (notary_disk s)\<lparr>journal := journal (notary_disk s) @ [Delete], content := None\<rparr>,
              configuration := None\<rparr>"
  have f: "forgetKey s = (Inr (), s')"
    using forgetKey_ok[of s] assms by (simp add: s'_def t'_def t_def)
  have e1: "eraseKeys t = (Inr True, t')"
    using eraseKeys_ok[of t] assms(2) by (simp add: t'_def t_def)
  have e2: "eraseKeys t' = (Inr True,
      t'\<lparr>ssm_disk := (ssm_disk t')\<lparr>journal := journal (ssm_disk t') @ [Delete], content := None\<rparr>,
         ssm_configuration := None\<rparr>)"
    using assms(2) by (intro eraseKeys_ok) (simp add: t'_def t_def)
  have g: "getCitation E s' =
     (Inl (Exception (notary_exception ''$getCitation'' ''$unexpected'') (Some invalidEvent)),
      s'\<lparr>notary_disk := (notary_disk s')
          \<lparr>journal := journal (notary_disk s') @ [Load, Store [(''$state'', Elem (Symbol ''$limited''))]],
           content := Some [(''$state'', Elem (Symbol ''$limited''))]\<rparr>,
       configuration := Some [(''$state'', Elem (Symbol ''$limited''))],
       controller := Some ''$limited''\<rparr>)"
    using assms(1) by (intro getCitation_fresh) (simp_all add: s'_def)
  have k: "getTag E t' = (Inr (Some (Elem (Tag (ssm_entropy t (ssm_draws t))))),
     t'\<lparr>ssm_draws := Suc (ssm_draws t'),
       ssm_disk := (ssm_disk t')\<lparr>journal := journal (ssm_disk t') @
          [Load, Store [(''$tag'', Elem (Tag (ssm_entropy t (ssm_draws t)))), (''$state'', Elem (Symbol ''$keyless''))]],
          content := Some [(''$tag'', Elem (Tag (ssm_entropy t (ssm_draws t)))), (''$state'', Elem (Symbol ''$keyless''))]\<rparr>,
       ssm_configuration := Some [(''$tag'', Elem (Tag (ssm_entropy t (ssm_draws t)))), (''$state'', Elem (Symbol ''$keyless''))],
       ssm_controller := Some ''$keyless''\<rparr>)"
    using assms(2) getTag_fresh[of t' _ E] by (simp add: t'_def t_def)
  show ?thesis
    unfolding Let_def t_def[symmetric] t'_def[symmetric] s'_def[symmetric]
    by (simp add: f e1 e2 g k) (simp add: s'_def t'_def)
qed

text \<open>
  C8 as stated fails: after \<open>forgetKey\<close> the next \<open>getCitation\<close> does not raise
  an exception of kind \<open>$invalidEvent\<close>.
\<close>

theorem forgetKey_counterexample:
  "\<exists>e. fst (getCitation demo_env
          (snd (forgetKey (demo_notary (Some demo_enabled) (demo_ssm (Some demo_loneKey)))))) = Inl e
     \<and> exceptionKind e \<noteq> Some ''$invalidEvent''
     \<and> exceptionKind e = Some ''$unexpected''
     \<and> exceptionCause e = Some invalidEvent"
proof -
  define s where "s = demo_notary (Some demo_enabled) (demo_ssm (Some demo_loneKey))"
  have a: "faulty (notary_disk s) = (\<lambda>n. False)" "faulty (ssm_disk (securityModule s)) = (\<lambda>n. False)"
    by (simp_all add: s_def demo_notary_def demo_ssm_def demo_disk_def)
  have f: "\<not> faulty (ssm_disk (securityModule s)) (length (journal (ssm_disk (securityModule s))))"
    "\<not> faulty (notary_disk s) (length (journal (notary_disk s)))"
    by (simp_all add: a)
  have "fst (getCitation demo_env (snd (forgetKey s))) =
      Inl (Exception (notary_exception ''$getCitation'' ''$unexpected'') (Some invalidEvent))"
    by (simp add: forgetKey_ok[OF f] getCitation_fresh a)
  then show ?thesis
    unfolding s_def[symmetric]
    by (simp add: exceptionKind_def exceptionCause_def notary_exception_def)
qed

theorem forgetKey_erases_witness:
  "forgetKey (demo_notary (Some demo_enabled) (demo_ssm (Some demo_loneKey))) =
     (Inr (), demo_notary (Some demo_enabled) (demo_ssm (Some demo_loneKey))
        \<lparr>securityModule := (demo_ssm (Some demo_loneKey))\<lparr>ssm_disk := (demo_disk None)\<lparr>journal := [Delete]\<rparr>\<rparr>,
         notary_disk := (demo_disk None)\<lparr>journal := [Delete]\<rparr>\<rparr>)
   \<and> fst (getTag demo_env ((demo_ssm (Some demo_loneKey))\<lparr>ssm_disk := (demo_disk None)\<lparr>journal := [Delete]\<rparr>\<rparr>)) =
       Inr (Some (Elem (Tag ''r'')))"
proof -
  define s where "s = demo_notary (Some demo_enabled) (demo_ssm (Some demo_loneKey))"
  have a: "faulty (notary_disk s) = (\<lambda>n. False)" "faulty (ssm_disk (securityModule s)) = (\<lambda>n. False)"
    by (simp_all add: s_def demo_notary_def demo_ssm_def demo_disk_def)
  note T = forgetKey_erases[OF a, of demo_env, unfolded Let_def]
  have R1: "forgetKey s = (Inr (), s
        \<lparr>securityModule := (demo_ssm (Some demo_loneKey))\<lparr>ssm_disk := (demo_disk None)\<lparr>journal := [Delete]\<rparr>\<rparr>,
         notary_disk := (demo_disk None)\<lparr>journal := [Delete]\<rparr>\<rparr>)"
    using T[THEN conjunct1] by (simp add: s_def demo_notary_def demo_ssm_def demo_disk_def)
  have R2: "fst (getTag demo_env ((demo_ssm (Some demo_loneKey))\<lparr>ssm_disk := (demo_disk None)\<lparr>journal := [Delete]\<rparr>\<rparr>)) =
       Inr (Some (Elem (Tag ''r'')))"
    using T[THEN conjunct2, THEN conjunct2, THEN conjunct2, THEN conjunct2, THEN conjunct2, THEN conjunct2,
        THEN conjunct2, THEN conjunct2, THEN conjunct2, THEN conjunct2, THEN conjunct2, THEN conjunct2, THEN conjunct1]
    by (simp add: s_def demo_notary_def demo_ssm_def demo_disk_def)
  show ?thesis
    unfolding s_def[symmetric] by (simp only: R1 R2)
qed


subsection \<open>The chain of certificates\<close>

lemma refreshKey_body_loaded:
  assumes "configuration s1 = Some cfg" and "controller s1 = Some ''$enabled''"
    and "getValue cfg ''$citation'' = Some citation"
    and "componentValue citation ''$tag'' = Inr (Some tag)"
    and "componentValue citation ''$version'' = Inr (Some (Elem (Version ns)))"
    and R: "rotateKeys E (securityModule s1) = (Inr (Some publicKey), t2)"
    and S: "\<And>bytes. signBytes E bytes t2 = (Inr (Elem (Binary (sign E bytes pk sk))), t3)"
    and "\<not> faulty (notary_disk s1) (length (journal (notary_disk s1)))"
    and "timestamp = Elem (Moment (clock s1 (ticks s1)))"
    and "version = Elem (Version (nextVersion E ns))"
    and "component = certificateCatalog timestamp (account s1) publicKey tag version citation"
    and "unsigned = documentCatalog component timestamp citation"
    and "certificate = Catalog
           [(''$component'', component), (''$protocol'', protocol), (''$timestamp'', timestamp),
            (''$certificate'', citation),
            (''$signature'', Elem (Binary (sign E (toString E unsigned) pk sk)))]
           [(''$type'', Elem (Name ''/bali/notary/Document/v1''))]"
    and "cfg' = setValue (setValue (setValue cfg ''$certificate'' certificate) ''$citation''
           (citationCatalog timestamp tag version (Elem (Binary (hash E (toString E certificate))))))
           ''$state'' (Elem (Symbol ''$enabled''))"
  shows "refreshKey_body E s1 =
     (Inr certificate,
      s1\<lparr>securityModule := t3, ticks := Suc (ticks s1), controller := Some ''$enabled'',
         configuration := Some cfg',
         notary_disk := (notary_disk s1)\<lparr>journal := journal (notary_disk s1) @ [Store cfg'],
                                       content := Some cfg'\<rparr>\<rparr>)"
proof -
  have v: "notary_validateEvent ''$refreshKey'' s1 = (Inr (), s1)"
    using assms(2)
    by (simp add: notary_validateEvent_def validateEvent_def nextState_def REQUESTS_def STATES_def)
  have n: "nextState REQUESTS STATES ''$enabled'' ''$refreshKey'' = Inr (Some ''$enabled'')"
    by (simp add: nextState_def REQUESTS_def STATES_def)
  have w: "withValue unsigned ''$signature'' (Elem (Binary (sign E (toString E unsigned) pk sk))) = Inr certificate"
    by (simp add: withValue_def assms(12,13) documentCatalog_def)
  show ?thesis
    unfolding refreshKey_body_def
    apply (subst bind_check[where m = "checkState E", OF checkState_loaded[OF assms(1)]])
    apply (subst bind_check[where m = "notary_validateEvent ''$refreshKey''", OF v])
    using assms(1-5,8) n
    apply (simp add: module_def digestBytes_def digestBytes_body_def R S w[unfolded assms(12,11,10,9)] assms(9-14) bali_moment_def notary_getValue_def
        notary_setValue_def defined_def successor_def convert_def updateState_def notary_transitionState_def
        transitionState_def notary_store_def storeConfiguration_def notary_io_def configurator_store_def
        prog_defs Let_def)
    done
qed

lemma rotateKeys_loaded:
  assumes "ssm_configuration t1 = Some k" and "ssm_controller t1 = Some ''$loneKey''"
    and "getAttribute k ''$publicKey'' = Some pkc" and "getAttribute k ''$privateKey'' = Some skc"
    and "\<not> faulty (ssm_disk t1) (length (journal (ssm_disk t1)))"
    and "raw = createKeyPair E (ssm_entropy t1 (ssm_draws t1))"
    and "k' = setAttribute (setAttribute (setAttribute (setAttribute (setAttribute k
            ''$previousPublicKey'' pkc) ''$previousPrivateKey'' skc)
            ''$publicKey'' (Elem (Binary (fst raw)))) ''$privateKey'' (Elem (Binary (snd raw))))
            ''$state'' (Elem (Symbol ''$twoKeys''))"
  shows "rotateKeys E t1 =
     (Inr (Some (Elem (Binary (fst raw)))),
      t1\<lparr>ssm_draws := Suc (ssm_draws t1), ssm_controller := Some ''$twoKeys'',
         ssm_configuration := Some k',
         ssm_disk := (ssm_disk t1)\<lparr>journal := journal (ssm_disk t1) @ [Store k'], content := Some k'\<rparr>\<rparr>)"
proof -
  have n: "nextState SSM_REQUESTS SSM_STATES ''$loneKey'' ''$rotateKeys'' = Inr (Some ''$twoKeys'')"
    by (simp add: nextState_def SSM_REQUESTS_def SSM_STATES_def)
  show ?thesis
    unfolding rotateKeys_def rotateKeys_body_def catching_def
    apply (subst bind_check[where m = "SSM_checkState E", OF SSM_checkState_loaded[OF assms(1)]])
    using assms n
    apply (simp add: SSM_validateEvent_def validateEvent_def movePrevious_def newKeyPair_def finish_def
        SSM_getAttribute_def SSM_setAttribute_def SSM_transitionState_def transitionState_def
        SSM_store_def SSM_storeConfiguration_def ssm_io_def ssm_random_def configurator_store_def
        getAttribute_setAttribute prog_defs Let_def)
    done
qed

lemma rotateKeys_check:
  "SSM_checkState E t = (Inr (), t1) \<Longrightarrow> rotateKeys E t = rotateKeys E t1"
  unfolding rotateKeys_def rotateKeys_body_def
  by (rule catching_check) (simp_all add: SSM_checkState_result)

lemma rotate_then_sign:
  assumes "SSM_checkState E t = (Inr (), t1)"
    and "ssm_configuration t1 = Some k" and "ssm_controller t1 = Some ''$loneKey''"
    and "getAttribute k ''$publicKey'' = Some (Elem (Binary pk))"
    and "getAttribute k ''$privateKey'' = Some (Elem (Binary sk))"
    and "faulty (ssm_disk t1) = (\<lambda>n. False)"
    and "raw = createKeyPair E (ssm_entropy t1 (ssm_draws t1))"
    and "k' = setAttribute (setAttribute (setAttribute (setAttribute (setAttribute k
            ''$previousPublicKey'' (Elem (Binary pk))) ''$previousPrivateKey'' (Elem (Binary sk)))
            ''$publicKey'' (Elem (Binary (fst raw)))) ''$privateKey'' (Elem (Binary (snd raw))))
            ''$state'' (Elem (Symbol ''$twoKeys''))"
    and "k'' = setAttribute (removeAttributes k' [''$previousPublicKey'', ''$previousPrivateKey''])
            ''$state'' (Elem (Symbol ''$loneKey''))"
    and "t2 = t1\<lparr>ssm_draws := Suc (ssm_draws t1), ssm_controller := Some ''$twoKeys'',
         ssm_configuration := Some k',
         ssm_disk := (ssm_disk t1)\<lparr>journal := journal (ssm_disk t1) @ [Store k'], content := Some k'\<rparr>\<rparr>"
    and "t3 = t2\<lparr>ssm_controller := Some ''$loneKey'', ssm_configuration := Some k'',
         ssm_disk := (ssm_disk t2)\<lparr>journal := journal (ssm_disk t2) @ [Store k''], content := Some k''\<rparr>\<rparr>"
  shows "rotateKeys E t = (Inr (Some (Elem (Binary (fst raw)))), t2)"
    and "signBytes E bytes t2 = (Inr (Elem (Binary (sign E bytes pk sk))), t3)"
    and "getAttribute k'' ''$publicKey'' = Some (Elem (Binary (fst raw)))"
    and "getAttribute k'' ''$privateKey'' = Some (Elem (Binary (snd raw)))"
    and "getAttribute k'' ''$previousPublicKey'' = None"
    and "getAttribute k'' ''$previousPrivateKey'' = None"
    and "getAttribute k'' ''$state'' = Some (Elem (Symbol ''$loneKey''))"
proof -
  have f: "\<not> faulty (ssm_disk t1) (length (journal (ssm_disk t1)))"
    by (simp add: assms(6))
  show "rotateKeys E t = (Inr (Some (Elem (Binary (fst raw)))), t2)"
    using rotateKeys_loaded[OF assms(2-5) f assms(7,8)] rotateKeys_check[OF assms(1)]
    by (simp add: assms(10))
  have p: "getAttribute k' ''$previousPublicKey'' = Some (Elem (Binary pk))"
    "getAttribute k' ''$previousPrivateKey'' = Some (Elem (Binary sk))"
    "getAttribute k' ''$publicKey'' = Some (Elem (Binary (fst raw)))"
    "getAttribute k' ''$privateKey'' = Some (Elem (Binary (snd raw)))"
    by (simp_all add: assms(8) getAttribute_setAttribute)
  have "signBytes E bytes t2 =
      (Inr (Elem (Binary (if getAttribute k' ''$previousPublicKey'' = None
                          then sign E bytes (fst raw) (snd raw) else sign E bytes pk sk))), t3)"
    unfolding assms(11)
    by (rule signBytes_loaded[where st = "''$twoKeys''" and c = k'])
      (simp_all add: assms(10,6,9) p)
  then show "signBytes E bytes t2 = (Inr (Elem (Binary (sign E bytes pk sk))), t3)"
    by (simp add: p)
  show "getAttribute k'' ''$publicKey'' = Some (Elem (Binary (fst raw)))"
    "getAttribute k'' ''$privateKey'' = Some (Elem (Binary (snd raw)))"
    "getAttribute k'' ''$previousPublicKey'' = None"
    "getAttribute k'' ''$previousPrivateKey'' = None"
    "getAttribute k'' ''$state'' = Some (Elem (Symbol ''$loneKey''))"
    by (simp_all add: assms(9) p getAttribute_setAttribute getAttribute_removeAttributes)
qed

lemma refreshKey_check:
  "checkState E s = (Inr (), s1) \<Longrightarrow> refreshKey_body E s = refreshKey_body E s1"
  unfolding refreshKey_body_def
  by (rule bind_check_same[OF _ checkState_result])

text \<open>
  C2. A call of \<open>refreshKey\<close> in the state \<open>$enabled\<close>, with the security
  module in the state \<open>$loneKey\<close> holding the key pair of the current
  certificate, a signature of which verifies under its public key, and no store
  failing. The certificate component that is returned inside the notarized
  certificate has the \<open>$tag\<close> of the current citation, the successor of its
  \<open>$version\<close>, and the current citation as \<open>$previous\<close>; the \<open>$certificate\<close>
  of the notarized certificate is the current citation; its \<open>$signature\<close> was
  made by the private key that was rotated out and verifies under the
  \<open>$publicKey\<close> of the previous certificate, over the document without its
  signature, so \<open>validDocument\<close> with the previous certificate returns true.
  The notary then holds the new certificate and a citation of its bytes, and
  the security module is back in \<open>$loneKey\<close> with the new key pair only.
\<close>

theorem refreshKey_chain:
  assumes "checkState E s = (Inr (), s1)"
    and "configuration s1 = Some cfg" and "controller s1 = Some ''$enabled''"
    and "getValue cfg ''$citation'' = Some citation"
    and "componentValue citation ''$tag'' = Inr (Some tag)"
    and "componentValue citation ''$version'' = Inr (Some (Elem (Version ns)))"
    and "getValue cfg ''$certificate'' = Some previous"
    and "componentValue previous ''$component'' = Inr (Some previousCertificate)"
    and "componentValue previousCertificate ''$publicKey'' = Inr (Some (Elem (Binary pk)))"
    and "componentValue previousCertificate ''$protocol'' = Inr (Some protocol)"
    and "SSM_checkState E (securityModule s1) = (Inr (), t1)"
    and "ssm_configuration t1 = Some k" and "ssm_controller t1 = Some ''$loneKey''"
    and "getAttribute k ''$publicKey'' = Some (Elem (Binary pk))"
    and "getAttribute k ''$privateKey'' = Some (Elem (Binary sk))"
    and "\<forall>bytes. verify E (sign E bytes pk sk) bytes pk = Some True"
    and "faulty (ssm_disk t1) = (\<lambda>n. False)"
    and "\<not> faulty (notary_disk s1) (length (journal (notary_disk s1)))"
  shows "let timestamp = Elem (Moment (clock s1 (ticks s1)));
       raw = createKeyPair E (ssm_entropy t1 (ssm_draws t1));
       version = Elem (Version (nextVersion E ns));
       component = certificateCatalog timestamp (account s1) (Elem (Binary (fst raw))) tag version citation;
       unsigned = documentCatalog component timestamp citation;
       signature = sign E (toString E unsigned) pk sk;
       certificate = Catalog
           [(''$component'', component), (''$protocol'', protocol), (''$timestamp'', timestamp),
            (''$certificate'', citation), (''$signature'', Elem (Binary signature))]
           [(''$type'', Elem (Name ''/bali/notary/Document/v1''))];
       cfg' = setValue (setValue (setValue cfg ''$certificate'' certificate) ''$citation''
           (citationCatalog timestamp tag version (Elem (Binary (hash E (toString E certificate))))))
           ''$state'' (Elem (Symbol ''$enabled''))
    in fst (refreshKey E s) = Inr certificate
     \<and> getParameter component ''$tag'' = Some tag
     \<and> getParameter component ''$version'' = Some version
     \<and> getParameter component ''$previous'' = Some citation
     \<and> componentValue component ''$publicKey'' = Inr (Some (Elem (Binary (fst raw))))
     \<and> componentValue certificate ''$component'' = Inr (Some component)
     \<and> componentValue certificate ''$certificate'' = Inr (Some citation)
     \<and> componentValue certificate ''$signature'' = Inr (Some (Elem (Binary signature)))
     \<and> extraction certificate [''$component'', ''$protocol'', ''$timestamp'', ''$certificate''] = Inr unsigned
     \<and> verify E signature (toString E unsigned) pk = Some True
     \<and> validDocument E certificate previousCertificate s' = (Inr True, s')
     \<and> configuration (snd (refreshKey E s)) = Some cfg'
     \<and> content (notary_disk (snd (refreshKey E s))) = Some cfg'
     \<and> controller (snd (refreshKey E s)) = Some ''$enabled''
     \<and> getValue cfg' ''$certificate'' = Some certificate
     \<and> getValue cfg' ''$citation'' =
           Some (citationCatalog timestamp tag version (Elem (Binary (hash E (toString E certificate)))))
     \<and> getAttribute (the (ssm_configuration (securityModule (snd (refreshKey E s))))) ''$publicKey'' =
           Some (Elem (Binary (fst raw)))
     \<and> getAttribute (the (ssm_configuration (securityModule (snd (refreshKey E s))))) ''$previousPrivateKey'' = None
     \<and> ssm_controller (securityModule (snd (refreshKey E s))) = Some ''$loneKey''"
proof -
  define timestamp where "timestamp = Elem (Moment (clock s1 (ticks s1)))"
  define raw where "raw = createKeyPair E (ssm_entropy t1 (ssm_draws t1))"
  define version where "version = Elem (Version (nextVersion E ns))"
  define component where
    "component = certificateCatalog timestamp (account s1) (Elem (Binary (fst raw))) tag version citation"
  define unsigned where "unsigned = documentCatalog component timestamp citation"
  define signature where "signature = sign E (toString E unsigned) pk sk"
  define das where "das = [(''$component'', component), (''$protocol'', protocol), (''$timestamp'', timestamp),
            (''$certificate'', citation), (''$signature'', Elem (Binary signature))]"
  define dps where "dps = [(''$type'', Elem (Name ''/bali/notary/Document/v1''))]"
  define certificate where "certificate = Catalog das dps"
  define cfg' where "cfg' = setValue (setValue (setValue cfg ''$certificate'' certificate) ''$citation''
           (citationCatalog timestamp tag version (Elem (Binary (hash E (toString E certificate))))))
           ''$state'' (Elem (Symbol ''$enabled''))"
  define k' where "k' = setAttribute (setAttribute (setAttribute (setAttribute (setAttribute k
            ''$previousPublicKey'' (Elem (Binary pk))) ''$previousPrivateKey'' (Elem (Binary sk)))
            ''$publicKey'' (Elem (Binary (fst raw)))) ''$privateKey'' (Elem (Binary (snd raw))))
            ''$state'' (Elem (Symbol ''$twoKeys''))"
  define k'' where "k'' = setAttribute (removeAttributes k' [''$previousPublicKey'', ''$previousPrivateKey''])
            ''$state'' (Elem (Symbol ''$loneKey''))"
  define t2 where "t2 = t1\<lparr>ssm_draws := Suc (ssm_draws t1), ssm_controller := Some ''$twoKeys'',
         ssm_configuration := Some k',
         ssm_disk := (ssm_disk t1)\<lparr>journal := journal (ssm_disk t1) @ [Store k'], content := Some k'\<rparr>\<rparr>"
  define t3 where "t3 = t2\<lparr>ssm_controller := Some ''$loneKey'', ssm_configuration := Some k'',
         ssm_disk := (ssm_disk t2)\<lparr>journal := journal (ssm_disk t2) @ [Store k''], content := Some k''\<rparr>\<rparr>"
  note rs = rotate_then_sign[OF assms(11-15,17) raw_def k'_def k''_def t2_def t3_def]
  have b: "refreshKey_body E s1 =
     (Inr certificate,
      s1\<lparr>securityModule := t3, ticks := Suc (ticks s1), controller := Some ''$enabled'',
         configuration := Some cfg',
         notary_disk := (notary_disk s1)\<lparr>journal := journal (notary_disk s1) @ [Store cfg'],
                                       content := Some cfg'\<rparr>\<rparr>)"
    by (rule refreshKey_body_loaded[OF assms(2-6) rs(1) rs(2) assms(18) timestamp_def version_def
          component_def unsigned_def _ cfg'_def])
      (simp add: certificate_def das_def dps_def signature_def)
  have r: "refreshKey E s =
     (Inr certificate,
      s1\<lparr>securityModule := t3, ticks := Suc (ticks s1), controller := Some ''$enabled'',
         configuration := Some cfg',
         notary_disk := (notary_disk s1)\<lparr>journal := journal (notary_disk s1) @ [Store cfg'],
                                       content := Some cfg'\<rparr>\<rparr>)"
    using b refreshKey_check[OF assms(1)] by (simp add: refreshKey_def catching_def)
  have u: "unsigned = Catalog [(''$component'', component), (''$protocol'', protocol), (''$timestamp'', timestamp),
                            (''$certificate'', citation)] dps"
    by (simp add: unsigned_def documentCatalog_def dps_def)
  have g: "getValue das ''$component'' = Some component" "getValue das ''$protocol'' = Some protocol"
    "getValue das ''$timestamp'' = Some timestamp" "getValue das ''$certificate'' = Some citation"
    "getValue das ''$signature'' = Some (Elem (Binary signature))"
    by (simp_all add: das_def getValue_def)
  have v: "verify E signature (toString E unsigned) pk = Some True"
    using assms(16) by (simp add: signature_def)
  have vd: "validDocument E certificate previousCertificate s' = (Inr True, s')"
    unfolding certificate_def
    by (rule validDocument_true[OF assms(10) toString_protocol assms(9) g u v])
  have x: "extraction certificate [''$component'', ''$protocol'', ''$timestamp'', ''$certificate''] = Inr unsigned"
    unfolding certificate_def u by (rule extraction_document[OF g(1-4)])
  have c: "getParameter component ''$tag'' = Some tag" "getParameter component ''$version'' = Some version"
    "getParameter component ''$previous'' = Some citation"
    "componentValue component ''$publicKey'' = Inr (Some (Elem (Binary (fst raw))))"
    by (simp_all add: component_def certificateCatalog_def getParameter.simps componentValue_def getValue_def)
  have d: "componentValue certificate ''$component'' = Inr (Some component)"
    "componentValue certificate ''$certificate'' = Inr (Some citation)"
    "componentValue certificate ''$signature'' = Inr (Some (Elem (Binary signature)))"
    by (simp_all add: certificate_def componentValue_def g)
  have e: "getValue cfg' ''$certificate'' = Some certificate"
    "getValue cfg' ''$citation'' =
       Some (citationCatalog timestamp tag version (Elem (Binary (hash E (toString E certificate)))))"
    by (simp_all add: cfg'_def getValue_setValue)
  have m: "ssm_configuration t3 = Some k''" "ssm_controller t3 = Some ''$loneKey''"
    by (simp_all add: t3_def)
  show ?thesis
    unfolding Let_def timestamp_def[symmetric] raw_def[symmetric] version_def[symmetric]
      component_def[symmetric] unsigned_def[symmetric] signature_def[symmetric]
      das_def[symmetric] dps_def[symmetric] certificate_def[symmetric] cfg'_def[symmetric]
    by (simp add: r c d x v vd e m rs(3-7))
qed

theorem refreshKey_chain_witness:
  "fst (refreshKey demo_env (demo_notary (Some demo_enabled) (demo_ssm (Some demo_loneKey)))) = Inr demo_refreshed
   \<and> validDocument demo_env demo_refreshed demo_certificate (demo_notary None (demo_ssm None)) =
       (Inr True, demo_notary None (demo_ssm None))"
proof -
  define s where "s = demo_notary (Some demo_enabled) (demo_ssm (Some demo_loneKey))"
  define s1 where "s1 = s\<lparr>notary_disk := (demo_disk (Some demo_enabled))\<lparr>journal := [Load]\<rparr>,
         configuration := Some demo_enabled, controller := Some ''$enabled''\<rparr>"
  define t where "t = demo_ssm (Some demo_loneKey)"
  define t1 where "t1 = t\<lparr>ssm_disk := (demo_disk (Some demo_loneKey))\<lparr>journal := [Load]\<rparr>,
         ssm_configuration := Some demo_loneKey, ssm_controller := Some ''$loneKey''\<rparr>"
  define n where "n = demo_notary None (demo_ssm None)"
  have st: "getValue demo_enabled ''$state'' = Some (Elem (Symbol ''$enabled''))"
    by (simp add: demo_enabled_def getValue_def)
  have one: "getAttribute demo_loneKey ''$state'' = Some (Elem (Symbol ''$loneKey''))"
    by (simp add: demo_loneKey_def getAttribute_def getValue_def)
  have c: "checkState demo_env s = (Inr (), s1)"
    unfolding s_def s1_def by (rule demo_notary_check[OF st])
  have sm: "securityModule s1 = t"
    by (simp add: s1_def s_def t_def demo_notary_def)
  have k: "SSM_checkState demo_env (securityModule s1) = (Inr (), t1)"
    unfolding sm unfolding t_def t1_def by (rule demo_ssm_check[OF one])
  have h: "configuration s1 = Some demo_enabled" "controller s1 = Some ''$enabled''"
    "getValue demo_enabled ''$citation'' = Some demo_citation"
    "componentValue demo_citation ''$tag'' = Inr (Some (Elem (Tag ''t'')))"
    "componentValue demo_citation ''$version'' = Inr (Some (Elem (Version [1])))"
    "getValue demo_enabled ''$certificate'' = Some demo_document"
    "componentValue demo_document ''$component'' = Inr (Some demo_certificate)"
    "componentValue demo_certificate ''$publicKey'' = Inr (Some (Elem (Binary ''Pone'')))"
    "componentValue demo_certificate ''$protocol'' = Inr (Some protocol)"
    by (simp_all add: s1_def demo_enabled_def demo_citation_def citationCatalog_def demo_document_def
        demo_certificate_def certificateCatalog_def componentValue_def getValue_def)
  have m: "ssm_configuration t1 = Some demo_loneKey" "ssm_controller t1 = Some ''$loneKey''"
    "getAttribute demo_loneKey ''$publicKey'' = Some (Elem (Binary ''Pone''))"
    "getAttribute demo_loneKey ''$privateKey'' = Some (Elem (Binary ''Sone''))"
    by (simp_all add: t1_def demo_loneKey_def getAttribute_def getValue_def)
  have v: "\<forall>bytes. verify demo_env (sign demo_env bytes ''Pone'' ''Sone'') bytes ''Pone'' = Some True"
    by (simp add: demo_env_def)
  have f: "faulty (ssm_disk t1) = (\<lambda>n. False)"
    "\<not> faulty (notary_disk s1) (length (journal (notary_disk s1)))"
    by (simp_all add: t1_def s1_def demo_disk_def)
  note T = refreshKey_chain[OF c h k m v f, where s' = n, unfolded Let_def]
  have e: "clock s1 (ticks s1) = ''m''" "account s1 = Elem (Tag ''#ACCOUNT'')"
    "createKeyPair demo_env (ssm_entropy t1 (ssm_draws t1)) = (''Pr'', ''Sr'')"
    "nextVersion demo_env = (\<lambda>ns. butlast ns @ [Suc (last ns)])"
    "\<And>b. sign demo_env b ''Pone'' ''Sone'' = ''one'' @ b"
    "\<And>a b c d. toString demo_env (documentCatalog a b c) = ''$component$protocol$timestamp$certificate$type''"
    by (simp_all add: s1_def s_def t1_def t_def demo_notary_def demo_ssm_def demo_env_def toString_def
        documentCatalog_def demo_format_def)
  have R1: "fst (refreshKey demo_env s) = Inr demo_refreshed"
    using T[THEN conjunct1] by (simp add: e demo_refreshed_def numeral_2_eq_2)
  have R2: "validDocument demo_env demo_refreshed demo_certificate n = (Inr True, n)"
    using T[THEN conjunct2, THEN conjunct2, THEN conjunct2, THEN conjunct2, THEN conjunct2, THEN conjunct2,
        THEN conjunct2, THEN conjunct2, THEN conjunct2, THEN conjunct2, THEN conjunct1]
    by (simp add: e demo_refreshed_def numeral_2_eq_2)
  show ?thesis
    unfolding s_def[symmetric] n_def[symmetric] by (simp only: R1 R2)
qed


subsection \<open>The protocol registry\<close>

lemma bindE:
  assumes "bind m f s = (Inr y, s')"
  obtains x s1 where "m s = (Inr x, s1)" and "f x s1 = (Inr y, s')"
  using assms by (auto simp: bind_def split: prod.splits sum.splits)

lemma catching_Inr:
  "catching as m s = (Inr y, s') \<Longrightarrow> m s = (Inr y, s')"
  by (auto simp: catching_def split: prod.splits sum.splits)

lemma carries_catalogs:
  "carries_v1 ''/bali/notary/Citation/v1'' (citationCatalog timestamp tag version digest)"
  "carries_v1 ''/bali/notary/Certificate/v1'' (certificateCatalog timestamp acc publicKey tag version previous)"
  "carries_v1 ''/bali/notary/Document/v1'' (documentCatalog component timestamp certificate)"
  by (simp_all add: carries_v1_def citationCatalog_def certificateCatalog_def documentCatalog_def
      componentValue_def getParameter.simps getValue_def)

lemma carries_withValue:
  "withValue (documentCatalog component timestamp certificate) ''$signature'' v = Inr d \<Longrightarrow>
   carries_v1 ''/bali/notary/Document/v1'' d \<and> componentValue d ''$component'' = Inr (Some component)"
  by (auto simp: withValue_def documentCatalog_def carries_v1_def componentValue_def getParameter.simps getValue_def)

lemma generateKey_carries:
  "generateKey E s = (Inr c, s') \<Longrightarrow> carries_v1 ''/bali/notary/Certificate/v1'' c"
  unfolding generateKey_def generateKey_body_def
  by (drule catching_Inr) (auto elim!: bindE simp: Let_def returns_def carries_catalogs)

lemma citeDocument_carries:
  "citeDocument E (Catalog das dps) s = (Inr c, s') \<Longrightarrow> carries_v1 ''/bali/notary/Citation/v1'' c"
  unfolding citeDocument_def citeDocument_body_def
  by (drule catching_Inr) (auto elim!: bindE simp: citing.simps Let_def returns_def carries_catalogs)

lemma activateKey_carries:
  "activateKey E (Catalog cas cps) s = (Inr c, s') \<Longrightarrow> getValue cas ''$component'' = Some component \<Longrightarrow>
   carries_v1 ''/bali/notary/Citation/v1'' c"
  unfolding activateKey_def activateKey_body_def
  by (drule catching_Inr)
    (auto elim!: bindE simp: activation.simps Let_def returns_def throws_def carries_catalogs
       split: if_splits)

lemma notarizeComponent_carries:
  "notarizeComponent E x s = (Inr d, s') \<Longrightarrow> carries_v1 ''/bali/notary/Document/v1'' d"
  unfolding notarizeComponent_def notarizeComponent_body_def
  by (drule catching_Inr) (auto elim!: bindE simp: Let_def returns_def lift_def dest!: carries_withValue)

lemma updateState_configuration:
  assumes "updateState ev s = (Inr (), s')" and "configuration s = Some c"
  shows "\<exists>next. configuration s' = Some (setValue c ''$state'' (Elem (Symbol next)))"
  using assms
  by (auto simp: updateState_def notary_transitionState_def notary_setValue_def notary_store_def
      storeConfiguration_def notary_io_def configurator_store_def prog_defs Let_def
      split: option.splits sum.splits prod.splits if_splits)

lemma notary_setValue_Inr:
  "notary_setValue k v s = (Inr u, s') \<Longrightarrow>
   \<exists>c. configuration s = Some c \<and> configuration s' = Some (setValue c k v)"
  by (auto simp: notary_setValue_def split: option.splits)

lemma module_configuration:
  "module m s = (r, s') \<Longrightarrow> configuration s' = configuration s"
  by (auto simp: module_def split: prod.splits)

lemma refreshKey_carries:
  assumes "refreshKey E s = (Inr d, s')"
  shows "carries_v1 ''/bali/notary/Document/v1'' d
   \<and> (\<exists>c. componentValue d ''$component'' = Inr (Some c) \<and> carries_v1 ''/bali/notary/Certificate/v1'' c)
   \<and> (\<exists>cfg c. configuration s' = Some cfg \<and> getValue cfg ''$citation'' = Some c
          \<and> carries_v1 ''/bali/notary/Citation/v1'' c)"
proof -
  have b: "refreshKey_body E s = (Inr d, s')"
    using assms unfolding refreshKey_def by (rule catching_Inr)
  from b show ?thesis
    unfolding refreshKey_body_def
    apply (elim bindE)
    apply (simp only: Let_def)
    apply (elim bindE)
    apply (clarsimp simp: lift_def returns_def)
    apply (drule carries_withValue)
    apply (drule notary_setValue_Inr)+
    apply (drule module_configuration)+
    apply clarsimp
    apply (drule (1) updateState_configuration)
    apply (auto simp: getValue_setValue carries_catalogs)
    done
qed

text \<open>How a version prints: \<open>v\<close> and then digits and dots, so only the version
  \<open>[1]\<close> prints as \<open>v1\<close>, and no version prints as a name that objects inherit.\<close>

lemma decimal_nonempty: "decimal n \<noteq> []"
  by (subst decimal.simps) simp

lemma hd_decimal: "hd (decimal n) \<in> set ''0123456789''"
proof (induction n rule: decimal.induct)
  case (1 n)
  show ?case
  proof (cases "n < 10")
    case True
    then have "''0123456789'' ! n \<in> set ''0123456789''"
      by (intro nth_mem) simp
    then show ?thesis
      using True by (subst decimal.simps) simp
  next
    case False
    then have "hd (decimal n) = hd (decimal (n div 10))"
      by (subst decimal.simps) (simp add: decimal_nonempty)
    then show ?thesis
      using 1 False by simp
  qed
qed

lemma digit_one: "n < 10 \<Longrightarrow> ''0123456789'' ! n = CHR ''1'' \<longleftrightarrow> n = 1"
proof -
  assume "n < 10"
  then have "n \<in> set [0..<10]"
    by simp
  then show ?thesis
    by (auto simp: upt_rec)
qed

lemma decimal_one: "decimal n = ''1'' \<longleftrightarrow> n = 1"
proof (cases "n < 10")
  case True
  then show ?thesis
    by (simp add: digit_one)
next
  case False
  have "length (decimal (n div 10)) \<noteq> 0"
    by (simp add: decimal_nonempty)
  then have "length (decimal n) \<noteq> 1"
    using False by (subst decimal.simps) simp
  then have "decimal n \<noteq> ''1''"
    by auto
  then show ?thesis
    using False by simp
qed

lemma dotted_one: "dotted ns = ''1'' \<longleftrightarrow> ns = [1]"
proof (cases ns rule: dotted.cases)
  case 1
  then show ?thesis by simp
next
  case (2 n)
  then show ?thesis by (simp add: decimal_one del: decimal.simps)
next
  case (3 n m ms)
  have "length (decimal n) \<noteq> 0"
    by (simp add: decimal_nonempty)
  then have "length (dotted ns) \<noteq> 1"
    using 3 by (simp del: decimal.simps)
  then have "dotted ns \<noteq> ''1''"
    by auto
  then show ?thesis
    using 3 by simp
qed

lemma hd_dotted: "ns \<noteq> [] \<Longrightarrow> dotted ns \<noteq> [] \<and> hd (dotted ns) \<in> set ''0123456789''"
proof (cases ns rule: dotted.cases)
  case 1
  assume "ns \<noteq> []"
  with 1 show ?thesis by simp
next
  case (2 n)
  then show ?thesis using hd_decimal[of n] decimal_nonempty[of n] by (simp del: decimal.simps)
next
  case (3 n m ms)
  then show ?thesis using hd_decimal[of n] decimal_nonempty[of n] by (simp del: decimal.simps)
qed

lemma version_v1: "toString E (Elem (Version ns)) = ''v1'' \<longleftrightarrow> ns = [1]"
  by (simp add: toString_def dotted_one)

lemma version_not_inherited: "toString E (Elem (Version ns)) \<notin> set Object_prototype"
proof
  assume "toString E (Elem (Version ns)) \<in> set Object_prototype"
  then have a: "dotted ns = ''alueOf''"
    by (auto simp: toString_def Object_prototype_def)
  then have "ns \<noteq> []"
    by auto
  then have "hd (dotted ns) \<in> set ''0123456789''"
    using hd_dotted by blast
  then show False
    by (simp add: a)
qed

text \<open>
  C10. The registry \<open>PROTOCOLS\<close> has the single entry \<open>v1\<close>, the protocol that
  is written is \<open>v1\<close>, and \<open>getProtocols\<close> returns the list with \<open>v1\<close> alone.
  Whatever \<open>generateKey\<close>, \<open>notarizeComponent\<close>, \<open>activateKey\<close>, \<open>citeDocument\<close>
  and \<open>refreshKey\<close> return carries the protocol \<open>v1\<close> and a type ending in
  \<open>/v1\<close>; so do the certificate inside the document of \<open>refreshKey\<close> and the
  citation it stores. When the \<open>$protocol\<close> of the citation given to
  \<open>citationMatches\<close>, or of the certificate given to \<open>validDocument\<close>, is a
  version other than \<open>v1\<close>, the call fails with the exception
  \<open>$unsupportedProtocol\<close> and changes nothing; version 2 is such a version. The
  same holds when it is any component that prints neither as \<open>v1\<close> nor as the
  name of a member that every object inherits.
\<close>

theorem protocol_registry:
  "map fst PROTOCOLS = [''v1''] \<and> PROTOCOL = ''v1''
   \<and> getProtocols s = (Inr [''v1''], s)
   \<and> toString E protocol = ''v1''
   \<and> (generateKey E s = (Inr c, s') \<longrightarrow> carries_v1 ''/bali/notary/Certificate/v1'' c)
   \<and> (notarizeComponent E x s = (Inr c, s') \<longrightarrow> carries_v1 ''/bali/notary/Document/v1'' c)
   \<and> (activateKey E (Catalog xas xps) s = (Inr c, s') \<and> getValue xas ''$component'' = Some xc \<longrightarrow>
        carries_v1 ''/bali/notary/Citation/v1'' c)
   \<and> (citeDocument E (Catalog xas xps) s = (Inr c, s') \<longrightarrow> carries_v1 ''/bali/notary/Citation/v1'' c)
   \<and> (refreshKey E s = (Inr c, s') \<longrightarrow>
        carries_v1 ''/bali/notary/Document/v1'' c
        \<and> (\<exists>component. componentValue c ''$component'' = Inr (Some component)
              \<and> carries_v1 ''/bali/notary/Certificate/v1'' component)
        \<and> (\<exists>cfg citation. configuration s' = Some cfg \<and> getValue cfg ''$citation'' = Some citation
              \<and> carries_v1 ''/bali/notary/Citation/v1'' citation))
   \<and> (getValue yas ''$protocol'' = Some (Elem (Version ns)) \<and> ns \<noteq> [1] \<longrightarrow>
        citationMatches E (Catalog yas yps) x s = (Inl (unsupportedProtocol ''$citationMatches''), s)
        \<and> validDocument E (Catalog das dps) (Catalog yas yps) s = (Inl (unsupportedProtocol ''$validDocument''), s))
   \<and> (getValue yas ''$protocol'' = Some p \<and> toString E p \<noteq> ''v1''
        \<and> toString E p \<notin> set Object_prototype \<longrightarrow>
        citationMatches E (Catalog yas yps) x s = (Inl (unsupportedProtocol ''$citationMatches''), s)
        \<and> validDocument E (Catalog das dps) (Catalog yas yps) s = (Inl (unsupportedProtocol ''$validDocument''), s))
   \<and> exceptionKind (unsupportedProtocol proc) = Some ''$unsupportedProtocol''
   \<and> toString E (Elem (Version [2])) = ''v2''"
proof -
  have "map fst PROTOCOLS = [''v1'']" "getProtocols s = (Inr [''v1''], s)"
    "exceptionKind (unsupportedProtocol proc) = Some ''$unsupportedProtocol''"
    by (simp_all add: PROTOCOLS_def getProtocols_def getProtocols_body_def exceptionKind_def
        unsupportedProtocol_def notary_exception_def prog_defs)
  moreover have "getValue yas ''$protocol'' = Some (Elem (Version ns)) \<and> ns \<noteq> [1] \<longrightarrow>
        citationMatches E (Catalog yas yps) x s = (Inl (unsupportedProtocol ''$citationMatches''), s)
        \<and> validDocument E (Catalog das dps) (Catalog yas yps) s = (Inl (unsupportedProtocol ''$validDocument''), s)"
    using citationMatches_unsupported[of yas "Elem (Version ns)" E yps x s]
      validDocument_unsupported[of yas "Elem (Version ns)" E das dps yps s]
    by (simp add: version_v1 version_not_inherited)
  ultimately show ?thesis
    using generateKey_carries[of E s c s'] notarizeComponent_carries[of E x s c s']
      activateKey_carries[of E xas xps s c s' xc] citeDocument_carries[of E xas xps s c s']
      refreshKey_carries[of E s c s'] citationMatches_unsupported[of yas p E yps x s]
      validDocument_unsupported[of yas p E das dps yps s]
    by (simp add: PROTOCOL_v1 toString_protocol toString_version2)
qed


text \<open>The operations that produce a catalog, run on the sample notary.\<close>

lemma demo_generateKey:
  "fst (generateKey demo_env (demo_notary None (demo_ssm None))) = Inr
     (certificateCatalog (Elem (Moment ''m'')) (Elem (Tag ''#ACCOUNT'')) (Elem (Binary ''Prr''))
       (Elem (Tag ''t'')) (Elem (Version [1])) (Elem Pattern_NONE))"
  by (simp add: generateKey_def generateKey_body_def ssm_defs notary_defs framework_defs demo_defs)

lemma demo_notarizeComponent:
  "fst (notarizeComponent demo_env demo_certificate (demo_notary (Some demo_pending) (demo_ssm (Some demo_loneKey)))) = Inr
     (Catalog
       [(''$component'', demo_certificate), (''$protocol'', protocol),
        (''$timestamp'', Elem (Moment ''m'')), (''$certificate'', Elem Pattern_NONE),
        (''$signature'', Elem (Binary ''one$component$protocol$timestamp$certificate$type''))]
       [(''$type'', Elem (Name ''/bali/notary/Document/v1''))])"
  by (simp add: notarizeComponent_def notarizeComponent_body_def documentCatalog_def demo_pending_def
      demo_loneKey_def ssm_defs notary_defs framework_defs demo_defs)

lemma demo_activateKey:
  "fst (activateKey demo_env demo_document (demo_notary (Some demo_pending) (demo_ssm (Some demo_loneKey)))) =
     Inr (citationCatalog (Elem (Moment ''m'')) (Elem (Tag ''t'')) (Elem (Version [1])) (Elem (Binary ''$compone'')))"
  by (simp add: activateKey_def activateKey_body_def activation.simps demo_pending_def demo_document_def
      demo_certificate_def certificateCatalog_def citationCatalog_def getParameter.simps
      demo_loneKey_def ssm_defs notary_defs framework_defs demo_defs)

lemma demo_citeDocument:
  "fst (citeDocument demo_env demo_document (demo_notary None (demo_ssm None))) =
     Inr (citationCatalog (Elem (Moment ''m'')) (Elem (Tag ''t'')) (Elem (Version [1])) (Elem (Binary ''$compone'')))"
  by (simp add: citeDocument_def citeDocument_body_def citing.simps demo_document_def
      demo_certificate_def certificateCatalog_def citationCatalog_def getParameter.simps
      ssm_defs notary_defs framework_defs demo_defs)

lemma demo_refreshKey:
  "fst (refreshKey demo_env (demo_notary (Some demo_enabled) (demo_ssm (Some demo_loneKey)))) = Inr demo_refreshed"
  by (simp add: refreshKey_def refreshKey_body_def documentCatalog_def demo_enabled_def demo_citation_def
      citationCatalog_def demo_refreshed_def numeral_2_eq_2
      demo_loneKey_def ssm_defs notary_defs framework_defs demo_defs)

theorem protocol_registry_witness:
  "getProtocols (demo_notary None (demo_ssm None)) = (Inr [''v1''], demo_notary None (demo_ssm None))
   \<and> carries_v1 ''/bali/notary/Certificate/v1''
        (certificateCatalog (Elem (Moment ''m'')) (Elem (Tag ''#ACCOUNT'')) (Elem (Binary ''Prr''))
           (Elem (Tag ''t'')) (Elem (Version [1])) (Elem Pattern_NONE))
   \<and> carries_v1 ''/bali/notary/Document/v1''
        (Catalog
          [(''$component'', demo_certificate), (''$protocol'', protocol),
           (''$timestamp'', Elem (Moment ''m'')), (''$certificate'', Elem Pattern_NONE),
           (''$signature'', Elem (Binary ''one$component$protocol$timestamp$certificate$type''))]
          [(''$type'', Elem (Name ''/bali/notary/Document/v1''))])
   \<and> carries_v1 ''/bali/notary/Citation/v1''
        (citationCatalog (Elem (Moment ''m'')) (Elem (Tag ''t'')) (Elem (Version [1])) (Elem (Binary ''$compone'')))
   \<and> carries_v1 ''/bali/notary/Document/v1'' demo_refreshed
   \<and> fst (citationMatches demo_env demo_citation2 demo_document (demo_notary None (demo_ssm None))) =
        Inl (unsupportedProtocol ''$citationMatches'')
   \<and> fst (validDocument demo_env demo_document demo_citation2 (demo_notary None (demo_ssm None))) =
        Inl (unsupportedProtocol ''$validDocument'')
   \<and> fst (citationMatches demo_env (Catalog [(''$protocol'', Elem (Name ''/v2''))] []) demo_document
          (demo_notary None (demo_ssm None))) =
        Inl (unsupportedProtocol ''$citationMatches'')"
proof -
  define n where "n = demo_notary None (demo_ssm None)"
  define e where "e = demo_notary (Some demo_enabled) (demo_ssm (Some demo_loneKey))"
  define q where "q = demo_notary (Some demo_pending) (demo_ssm (Some demo_loneKey))"
  define g where "g = certificateCatalog (Elem (Moment ''m'')) (Elem (Tag ''#ACCOUNT'')) (Elem (Binary ''Prr''))
           (Elem (Tag ''t'')) (Elem (Version [1])) (Elem Pattern_NONE)"
  define d where "d = Catalog
          [(''$component'', demo_certificate), (''$protocol'', protocol),
           (''$timestamp'', Elem (Moment ''m'')), (''$certificate'', Elem Pattern_NONE),
           (''$signature'', Elem (Binary ''one$component$protocol$timestamp$certificate$type''))]
          [(''$type'', Elem (Name ''/bali/notary/Document/v1''))]"
  define k where "k = citationCatalog (Elem (Moment ''m'')) (Elem (Tag ''t'')) (Elem (Version [1]))
           (Elem (Binary ''$compone''))"
  define das where "das = [(''$component'', demo_certificate), (''$protocol'', protocol),
        (''$timestamp'', Elem (Moment ''mm'')), (''$certificate'', Elem Pattern_NONE),
        (''$signature'', Elem (Binary ''one$component$protocol$timestamp$certificate$type''))]"
  define dps where "dps = [(''$type'', Elem (Name ''/bali/notary/Document/v1''))]"
  define kas where "kas = [(''$protocol'', Elem (Version [2])), (''$timestamp'', Elem (Moment ''m'')),
        (''$tag'', Elem (Tag ''t'')), (''$version'', Elem (Version [1])), (''$digest'', Elem (Binary ''$compone''))]"
  define kps where "kps = [(''$type'', Elem (Name ''/bali/notary/Citation/v2''))]"
  define nas where "nas = [(''$protocol'', Elem (Name ''/v2''))]"
  have D: "demo_document = Catalog das dps" and K: "demo_citation2 = Catalog kas kps"
    by (simp_all add: demo_document_def demo_citation2_def das_def dps_def kas_def kps_def)
  have G: "generateKey demo_env n = (Inr g, snd (generateKey demo_env n))"
    using demo_generateKey unfolding n_def[symmetric] g_def[symmetric]
    by (metis prod.collapse)
  have N: "notarizeComponent demo_env demo_certificate q = (Inr d, snd (notarizeComponent demo_env demo_certificate q))"
    using demo_notarizeComponent unfolding q_def[symmetric] d_def[symmetric]
    by (metis prod.collapse)
  have A: "activateKey demo_env (Catalog das dps) q = (Inr k, snd (activateKey demo_env (Catalog das dps) q))"
    using demo_activateKey unfolding q_def[symmetric] k_def[symmetric] D
    by (metis prod.collapse)
  have C: "citeDocument demo_env (Catalog das dps) n = (Inr k, snd (citeDocument demo_env (Catalog das dps) n))"
    using demo_citeDocument unfolding n_def[symmetric] k_def[symmetric] D
    by (metis prod.collapse)
  have R: "refreshKey demo_env e = (Inr demo_refreshed, snd (refreshKey demo_env e))"
    using demo_refreshKey unfolding e_def[symmetric]
    by (metis prod.collapse)
  have p: "getValue kas ''$protocol'' = Some (Elem (Version [2]))" "[2] \<noteq> [1::nat]"
    "getValue nas ''$protocol'' = Some (Elem (Name ''/v2''))"
    "toString demo_env (Elem (Name ''/v2'')) \<noteq> ''v1''"
    "toString demo_env (Elem (Name ''/v2'')) \<notin> set Object_prototype"
    by (simp_all add: kas_def nas_def getValue_def toString_def demo_env_def demo_format_def Object_prototype_def)
  note T1 = protocol_registry[where E = demo_env and s = n and c = g and s' = "snd (generateKey demo_env n)"
      and yas = kas and yps = kps and ns = "[2]" and x = "Catalog das dps" and das = das and dps = dps]
  note T2 = protocol_registry[where E = demo_env and s = e and c = demo_refreshed
      and s' = "snd (refreshKey demo_env e)"]
  note T3 = protocol_registry[where E = demo_env and s = q and c = d and x = demo_certificate
      and s' = "snd (notarizeComponent demo_env demo_certificate q)"]
  note T4 = protocol_registry[where E = demo_env and s = q and c = k and xas = das and xps = dps
      and xc = demo_certificate and s' = "snd (activateKey demo_env (Catalog das dps) q)"]
  note T5 = protocol_registry[where E = demo_env and s = n and c = k and xas = das and xps = dps
      and s' = "snd (citeDocument demo_env (Catalog das dps) n)"]
  note T6 = protocol_registry[where E = demo_env and s = n and yas = nas and yps = "[]"
      and p = "Elem (Name ''/v2'')" and x = "Catalog das dps"]
  have R1: "getProtocols n = (Inr [''v1''], n)"
    using T1 by blast
  have R2: "carries_v1 ''/bali/notary/Certificate/v1'' g"
    using T1 G by blast
  have R3: "carries_v1 ''/bali/notary/Document/v1'' demo_refreshed"
    using T2 R by blast
  have R4: "citationMatches demo_env (Catalog kas kps) (Catalog das dps) n =
        (Inl (unsupportedProtocol ''$citationMatches''), n)"
    "validDocument demo_env (Catalog das dps) (Catalog kas kps) n =
        (Inl (unsupportedProtocol ''$validDocument''), n)"
    using T1 p(1,2) by blast+
  have R5: "carries_v1 ''/bali/notary/Document/v1'' d"
    using T3 N by blast
  have xc: "getValue das ''$component'' = Some demo_certificate"
    by (simp add: das_def getValue_def)
  have R6: "carries_v1 ''/bali/notary/Citation/v1'' k"
    using T4 A xc by blast
  have R7: "carries_v1 ''/bali/notary/Citation/v1'' k"
    using T5 C by blast
  have R8: "citationMatches demo_env (Catalog nas []) (Catalog das dps) n =
        (Inl (unsupportedProtocol ''$citationMatches''), n)"
    using T6 p(3-5) by blast
  show ?thesis
    unfolding n_def[symmetric] g_def[symmetric] d_def[symmetric] k_def[symmetric] D K nas_def[symmetric]
    by (simp only: R1 R2 R3 R4 R5 R6 R7 R8 fst_conv simp_thms)
qed


end
